theory Spec2Isabelle
  imports Main
begin

section \<open>JavaScript values and errors\<close>

text \<open>
  A thrown JavaScript exception is a value of \<open>error\<close>: \<open>Error msg\<close> is
  \<^verbatim>\<open>new Error(msg)\<close>, \<open>TypeError\<close> is what a property access on
  \<^verbatim>\<open>undefined\<close>/\<^verbatim>\<open>null\<close> or a rejected \<^verbatim>\<open>fetch\<close> raises, and
  \<open>SyntaxError\<close> is what \<^verbatim>\<open>JSON.parse\<close> and \<^verbatim>\<open>response.json()\<close> raise on
  text that is not JSON. A computation that may throw returns \<open>error + 'a\<close>.
\<close>

datatype error = Error string | TypeError | SyntaxError

section \<open>Upload constraints (lib/constants.js)\<close>

definition ALLOWED_FILE_TYPES :: "string list" where
  "ALLOWED_FILE_TYPES = [''image/jpeg'', ''image/jpg'', ''image/png'', ''application/pdf'']"

definition ALLOWED_FILE_EXTENSIONS :: "string list" where
  "ALLOWED_FILE_EXTENSIONS = [''.pdf'', ''.jpg'', ''.jpeg'', ''.png'']"

definition MAX_FILE_SIZE :: nat where
  "MAX_FILE_SIZE = 10 * 1024 * 1024"

section \<open>String and array primitives used by the validators\<close>

text \<open>\<^verbatim>\<open>Array.prototype.includes\<close> on an array of strings.\<close>

definition array_includes :: "string list \<Rightarrow> string \<Rightarrow> bool" where
  "array_includes xs x = (x \<in> set xs)"

text \<open>
  \<^verbatim>\<open>String.prototype.split(d)\<close> for a one-character separator: the pieces between the
  occurrences of \<open>d\<close>, so a text without \<open>d\<close> is one piece, the text itself.
\<close>

fun split :: "char \<Rightarrow> string \<Rightarrow> string list" where
  "split d [] = [[]]"
| "split d (c # cs) =
     (if c = d then [] # split d cs
      else (c # hd (split d cs)) # tl (split d cs))"

text \<open>\<^verbatim>\<open>Array.prototype.pop\<close>: the last element, \<^verbatim>\<open>undefined\<close> (here \<open>None\<close>) on an empty array.\<close>

definition pop :: "'a list \<Rightarrow> 'a option" where
  "pop xs = (if xs = [] then None else Some (last xs))"

text \<open>
  \<^verbatim>\<open>String.prototype.toLowerCase\<close> on the letters A to Z; every other character of the
  8-bit alphabet of \<open>string\<close> is left as it is.
\<close>

definition lower_char :: "char \<Rightarrow> char" where
  "lower_char c =
     (case map_of (zip ''ABCDEFGHIJKLMNOPQRSTUVWXYZ'' ''abcdefghijklmnopqrstuvwxyz'') c of
        Some l \<Rightarrow> l
      | None \<Rightarrow> c)"

definition toLowerCase :: "string \<Rightarrow> string" where
  "toLowerCase s = map lower_char s"

text \<open>\<^verbatim>\<open>Array.prototype.join(sep)\<close> on an array of strings.\<close>

fun join :: "string \<Rightarrow> string list \<Rightarrow> string" where
  "join sep [] = []"
| "join sep [x] = x"
| "join sep (x # y # ys) = x @ sep @ join sep (y # ys)"

section \<open>Files and the shared validator (lib/utils.js)\<close>

text \<open>The three properties of a browser \<^verbatim>\<open>File\<close> that the validators read.\<close>

record File =
  file_name :: string
  file_type :: string
  file_size :: nat

text \<open>
  \<^verbatim>\<open>'.' + file.name.split('.').pop().toLowerCase()\<close>. Calling \<^verbatim>\<open>toLowerCase\<close> on the
  \<^verbatim>\<open>undefined\<close> that \<^verbatim>\<open>pop\<close> returns for an empty array would throw a TypeError.
\<close>

definition fileExtension :: "string \<Rightarrow> error + string" where
  "fileExtension nm =
     (case pop (split CHR ''.'' nm) of
        None \<Rightarrow> Inl TypeError
      | Some seg \<Rightarrow> Inr (CHR ''.'' # toLowerCase seg))"

record validation =
  isValid :: bool
  error :: "string option"

text \<open>
  \<^verbatim>\<open>validateFile(file)\<close>. The size message embeds \<^verbatim>\<open>formatFileSize(MAX_FILE_SIZE)\<close>, which
  the source computes in floating point; that text is the parameter \<open>formatted_max\<close>.
\<close>

definition validateFile :: "string \<Rightarrow> File \<Rightarrow> error + validation" where
  "validateFile formatted_max f =
     (if \<not> array_includes ALLOWED_FILE_TYPES (file_type f) then
        Inr \<lparr>isValid = False,
             error = Some ''Invalid file type. Allowed types: PDF, JPG, JPEG, PNG''\<rparr>
      else
        (case fileExtension (file_name f) of
           Inl e \<Rightarrow> Inl e
         | Inr ext \<Rightarrow>
             if \<not> array_includes ALLOWED_FILE_EXTENSIONS ext then
               Inr \<lparr>isValid = False,
                    error = Some (''Invalid file extension. Allowed extensions: ''
                                  @ join '', '' ALLOWED_FILE_EXTENSIONS)\<rparr>
             else if file_size f > MAX_FILE_SIZE then
               Inr \<lparr>isValid = False,
                    error = Some (''File too large. Maximum size is '' @ formatted_max)\<rparr>
             else Inr \<lparr>isValid = True, error = None\<rparr>))"

section \<open>The Upload View (components/UploadPage.jsx)\<close>

text \<open>
  The body of the \<^verbatim>\<open>for\<close> loop of the view's own \<^verbatim>\<open>validateFiles\<close>: the three checks
  are made one after the other and each failing one pushes its message.
\<close>

definition validate_step :: "string list \<Rightarrow> File \<Rightarrow> error + string list" where
  "validate_step errors f =
     (let errors1 =
            (if \<not> array_includes ALLOWED_FILE_TYPES (file_type f)
             then errors @ [file_name f @ '': Invalid file type. Allowed types: PDF, JPG, JPEG, PNG'']
             else errors)
      in case fileExtension (file_name f) of
           Inl e \<Rightarrow> Inl e
         | Inr ext \<Rightarrow>
             (let errors2 =
                    (if \<not> array_includes ALLOWED_FILE_EXTENSIONS ext
                     then errors1 @ [file_name f @ '': Invalid file extension. Allowed extensions: ''
                                     @ join '', '' ALLOWED_FILE_EXTENSIONS]
                     else errors1)
              in Inr (if file_size f > MAX_FILE_SIZE
                      then errors2 @ [file_name f @ '': File too large. Maximum size is 10MB'']
                      else errors2)))"

fun validate_loop :: "string list \<Rightarrow> File list \<Rightarrow> error + string list" where
  "validate_loop errors [] = Inr errors"
| "validate_loop errors (f # fs) =
     (case validate_step errors f of
        Inl e \<Rightarrow> Inl e
      | Inr errors' \<Rightarrow> validate_loop errors' fs)"

definition validateFiles :: "File list \<Rightarrow> error + string list" where
  "validateFiles fileList = validate_loop [] fileList"

text \<open>
  The state of the view that \<^verbatim>\<open>onFilesChange\<close> touches: the \<^verbatim>\<open>files\<close> and \<^verbatim>\<open>error\<close>
  hooks, and the selection held by the file input behind \<^verbatim>\<open>fileInputRef\<close> (\<open>None\<close> while
  the ref is not attached).
\<close>

record upload_state =
  files :: "File list"
  upload_error :: "string option"
  fileInput :: "File list option"

text \<open>
  \<^verbatim>\<open>onFilesChange(e)\<close>, with \<open>selected\<close> the files of the event
  (\<^verbatim>\<open>Array.from(e.target.files || [])\<close>). Assigning \<^verbatim>\<open>""\<close> to the input's value empties
  its selection.
\<close>

definition onFilesChange :: "File list \<Rightarrow> upload_state \<Rightarrow> error + upload_state" where
  "onFilesChange selected st =
     (case validateFiles selected of
        Inl e \<Rightarrow> Inl e
      | Inr validationErrors \<Rightarrow>
          if length validationErrors > 0 then
            Inr (st\<lparr>upload_error := Some (join [CHR 0x0A] validationErrors),
                     files := [],
                     fileInput := (case fileInput st of None \<Rightarrow> None | Some _ \<Rightarrow> Some [])\<rparr>)
          else Inr (st\<lparr>upload_error := None, files := selected\<rparr>))"

section \<open>The upload rules as the specification words them\<close>

text \<open>
  The extension of a file name in the specification's words: a dot followed by the
  lower-cased last dot-segment of the name, the segment being what follows the last dot
  (the whole name when there is no dot).
\<close>

definition last_dot_segment :: "string \<Rightarrow> string" where
  "last_dot_segment nm = rev (takeWhile (\<lambda>c. c \<noteq> CHR ''.'') (rev nm))"

definition spec_extension :: "string \<Rightarrow> string" where
  "spec_extension nm = CHR ''.'' # toLowerCase (last_dot_segment nm)"

definition violates_type :: "File \<Rightarrow> bool" where
  "violates_type f = (file_type f \<notin> set ALLOWED_FILE_TYPES)"

definition violates_extension :: "File \<Rightarrow> bool" where
  "violates_extension f = (spec_extension (file_name f) \<notin> set ALLOWED_FILE_EXTENSIONS)"

definition violates_size :: "File \<Rightarrow> bool" where
  "violates_size f = (file_size f > MAX_FILE_SIZE)"

text \<open>The violation messages of one file, one per broken rule, in the order type, extension, size.\<close>

definition violation_messages :: "File \<Rightarrow> string list" where
  "violation_messages f =
     (if violates_type f
      then [file_name f @ '': Invalid file type. Allowed types: PDF, JPG, JPEG, PNG''] else [])
     @ (if violates_extension f
        then [file_name f @ '': Invalid file extension. Allowed extensions: .pdf, .jpg, .jpeg, .png'']
        else [])
     @ (if violates_size f
        then [file_name f @ '': File too large. Maximum size is 10MB''] else [])"

section \<open>JSON values\<close>

text \<open>
  A value read from a JSON text. \<open>JNum\<close> carries integer-valued numbers only. In \<open>JObj\<close> a
  later entry for a key overrides an earlier one, as it does when JSON text is parsed. A
  JavaScript value that may also be \<^verbatim>\<open>undefined\<close> is a \<open>json option\<close>, with \<open>None\<close> for
  \<^verbatim>\<open>undefined\<close>; where the source only tests a value for truthiness, \<^verbatim>\<open>null\<close> and
  \<^verbatim>\<open>undefined\<close> are both \<open>None\<close>.
\<close>

datatype json =
    JNull
  | JBool bool
  | JNum int
  | JStr string
  | JArr "json list"
  | JObj "(string \<times> json) list"

text \<open>JavaScript truthiness.\<close>

fun truthy :: "json option \<Rightarrow> bool" where
  "truthy None = False"
| "truthy (Some JNull) = False"
| "truthy (Some (JBool b)) = b"
| "truthy (Some (JNum n)) = (n \<noteq> 0)"
| "truthy (Some (JStr s)) = (s \<noteq> [])"
| "truthy (Some (JArr xs)) = True"
| "truthy (Some (JObj kvs)) = True"

text \<open>
  Reading a property of a value: \<^verbatim>\<open>v.k\<close> throws a TypeError on \<^verbatim>\<open>null\<close>, gives the member
  on an object, and \<^verbatim>\<open>undefined\<close> on every other value (the keys read in this program
  are not built-in properties of strings, numbers or arrays).
\<close>

fun get_prop :: "json \<Rightarrow> string \<Rightarrow> error + json option" where
  "get_prop JNull k = Inl TypeError"
| "get_prop (JObj kvs) k = Inr (map_of (rev kvs) k)"
| "get_prop v k = Inr None"

text \<open>Decimal digits of a natural number, and of an integer.\<close>

fun nat_digits :: "nat \<Rightarrow> string" where
  "nat_digits n =
     (if n < 10 then [''0123456789'' ! n]
      else nat_digits (n div 10) @ [''0123456789'' ! (n mod 10)])"

declare nat_digits.simps [simp del]

definition int_digits :: "int \<Rightarrow> string" where
  "int_digits i = (if i < 0 then CHR ''-'' # nat_digits (nat (- i)) else nat_digits (nat i))"

text \<open>
  The text a value becomes in a template literal, in \<^verbatim>\<open>String(v)\<close> and in
  \<^verbatim>\<open>localStorage.setItem\<close>.
\<close>

fun js_string :: "json \<Rightarrow> string" where
  "js_string JNull = ''null''"
| "js_string (JBool b) = (if b then ''true'' else ''false'')"
| "js_string (JNum n) = int_digits n"
| "js_string (JStr s) = s"
| "js_string (JArr xs) = join '','' (map (\<lambda>x. if x = JNull then [] else js_string x) xs)"
| "js_string (JObj kvs) = ''[object Object]''"

definition String :: "json option \<Rightarrow> string" where
  "String v = (case v of None \<Rightarrow> ''undefined'' | Some j \<Rightarrow> js_string j)"

section \<open>The browser: storage, location and the network\<close>

datatype req_body = NoBody | JsonBody json | FormData "File list" string

record request =
  url :: string
  http_method :: string
  headers :: "(string \<times> string) list"
  body :: req_body

text \<open>
  An HTTP response. \<open>res_body\<close> is the JSON value of the body, \<open>None\<close> when the body is
  not JSON text (then \<^verbatim>\<open>response.json()\<close> rejects).
\<close>

record response =
  status :: nat
  statusText :: string
  res_body :: "json option"

definition ok :: "response \<Rightarrow> bool" where
  "ok res = (200 \<le> status res \<and> status res \<le> 299)"

definition res_json :: "response \<Rightarrow> error + json" where
  "res_json res = (case res_body res of None \<Rightarrow> Inl SyntaxError | Some j \<Rightarrow> Inr j)"

text \<open>
  The backend and the transport, seen from the client: what a request is answered with,
  given the requests sent before it (oldest first). \<open>Inl\<close> is a rejected \<^verbatim>\<open>fetch\<close>
  (network failure), \<open>Inr\<close> a response of any status.
\<close>

type_synonym network = "request list \<Rightarrow> request \<Rightarrow> error + response"

text \<open>
  The browser state the session manager works on: \<^verbatim>\<open>localStorage\<close>, the last value
  assigned to \<^verbatim>\<open>window.location.href\<close> (\<open>None\<close> while nothing was assigned), the log of
  outbound requests (oldest first) and the build-time setting \<^verbatim>\<open>VITE_API_BASE\<close>.
\<close>

record browser =
  localStorage :: "string \<rightharpoonup> string"
  location_href :: "string option"
  requests :: "request list"
  VITE_API_BASE :: "string option"

text \<open>The \<^verbatim>\<open>options\<close> argument of \<^verbatim>\<open>fetch\<close>; an absent member is \<open>None\<close> (\<open>NoBody\<close>).\<close>

record options =
  opt_method :: "string option"
  opt_headers :: "(string \<times> string) list option"
  opt_body :: req_body

definition no_options :: options where
  "no_options = \<lparr>opt_method = None, opt_headers = None, opt_body = NoBody\<rparr>"

definition fetch :: "network \<Rightarrow> string \<Rightarrow> options \<Rightarrow> browser \<Rightarrow> (error + response) \<times> browser" where
  "fetch net u opts b =
     (let rq = \<lparr>url = u,
                http_method = (case opt_method opts of None \<Rightarrow> ''GET'' | Some m \<Rightarrow> m),
                headers = (case opt_headers opts of None \<Rightarrow> [] | Some h \<Rightarrow> h),
                body = opt_body opts\<rparr>
      in (net (requests b) rq, b\<lparr>requests := requests b @ [rq]\<rparr>))"

text \<open>Assigning a property of an object literal: an existing key keeps its place.\<close>

fun assign :: "string \<Rightarrow> string \<Rightarrow> (string \<times> string) list \<Rightarrow> (string \<times> string) list" where
  "assign k v [] = [(k, v)]"
| "assign k v ((k', v') # kvs) = (if k' = k then (k, v) # kvs else (k', v') # assign k v kvs)"

section \<open>The session and token manager (lib/auth.js)\<close>

definition API_BASE :: "browser \<Rightarrow> string" where
  "API_BASE b =
     (case VITE_API_BASE b of
        None \<Rightarrow> ''http://localhost:8000''
      | Some s \<Rightarrow> if s = [] then ''http://localhost:8000'' else s)"

definition ACCESS_TOKEN_KEY :: string where "ACCESS_TOKEN_KEY = ''access''"
definition REFRESH_TOKEN_KEY :: string where "REFRESH_TOKEN_KEY = ''refresh''"
definition AUTH_USER_KEY :: string where "AUTH_USER_KEY = ''authUser''"

definition getItem :: "string \<Rightarrow> browser \<Rightarrow> string option" where
  "getItem k b = localStorage b k"

definition setItem :: "string \<Rightarrow> string \<Rightarrow> browser \<Rightarrow> browser" where
  "setItem k v b = b\<lparr>localStorage := (localStorage b)(k \<mapsto> v)\<rparr>"

definition removeItem :: "string \<Rightarrow> browser \<Rightarrow> browser" where
  "removeItem k b = b\<lparr>localStorage := (localStorage b)(k := None)\<rparr>"

definition getAccessToken :: "browser \<Rightarrow> string option" where
  "getAccessToken b = getItem ACCESS_TOKEN_KEY b"

definition getRefreshToken :: "browser \<Rightarrow> string option" where
  "getRefreshToken b = getItem REFRESH_TOKEN_KEY b"

text \<open>
  \<^verbatim>\<open>getAuthUser()\<close>. \<^verbatim>\<open>JSON.parse\<close> is the platform's; it is the parameter \<open>parse\<close>, which
  gives \<open>None\<close> where \<^verbatim>\<open>JSON.parse\<close> throws its SyntaxError. The source has no handler
  around the call, so the error reaches the caller. An absent and an empty stored text are
  both falsy and give \<^verbatim>\<open>null\<close>, here \<open>Inr None\<close>.
\<close>

definition getAuthUser :: "(string \<Rightarrow> json option) \<Rightarrow> browser \<Rightarrow> error + json option" where
  "getAuthUser parse b =
     (case getItem AUTH_USER_KEY b of
        None \<Rightarrow> Inr None
      | Some user \<Rightarrow>
          if user = [] then Inr None
          else (case parse user of
                  None \<Rightarrow> Inl SyntaxError
                | Some v \<Rightarrow> Inr (Some v)))"

text \<open>
  \<^verbatim>\<open>saveTokens(access, refresh, user = null)\<close>. The third argument here is the text
  \<^verbatim>\<open>JSON.stringify(user)\<close> when \<^verbatim>\<open>user\<close> is truthy and \<open>None\<close> when it is not, so that the
  platform's \<^verbatim>\<open>JSON.stringify\<close> is applied by the caller.
\<close>

definition saveTokens :: "json option \<Rightarrow> json option \<Rightarrow> string option \<Rightarrow> browser \<Rightarrow> browser" where
  "saveTokens access refresh user b =
     (let b1 = (if truthy access then setItem ACCESS_TOKEN_KEY (String access) b else b);
          b2 = (if truthy refresh then setItem REFRESH_TOKEN_KEY (String refresh) b1 else b1)
      in case user of None \<Rightarrow> b2 | Some text \<Rightarrow> setItem AUTH_USER_KEY text b2)"

definition clearTokens :: "browser \<Rightarrow> browser" where
  "clearTokens b =
     removeItem AUTH_USER_KEY (removeItem REFRESH_TOKEN_KEY (removeItem ACCESS_TOKEN_KEY b))"

definition isAuthenticated :: "browser \<Rightarrow> bool" where
  "isAuthenticated b = (case getAccessToken b of None \<Rightarrow> False | Some t \<Rightarrow> t \<noteq> [])"

text \<open>The request that \<^verbatim>\<open>refreshAccessToken\<close> posts for the stored refresh token.\<close>

definition refresh_options :: "string \<Rightarrow> options" where
  "refresh_options refresh =
     \<lparr>opt_method = Some ''POST'',
      opt_headers = Some [(''Content-Type'', ''application/json'')],
      opt_body = JsonBody (JObj [(''refresh'', JStr refresh)])\<rparr>"

text \<open>
  \<^verbatim>\<open>refreshAccessToken()\<close>. The result is the new access token as the response carries it,
  \<open>None\<close> for \<^verbatim>\<open>null\<close>. Every \<open>Inl\<close> branch is the \<^verbatim>\<open>catch\<close> block of the source.
\<close>

definition refreshAccessToken :: "network \<Rightarrow> browser \<Rightarrow> json option \<times> browser" where
  "refreshAccessToken net b =
     (case getRefreshToken b of
        None \<Rightarrow> (None, b)
      | Some refresh \<Rightarrow>
          if refresh = [] then (None, b)
          else
            (case fetch net (API_BASE b @ ''/api/token/refresh/'') (refresh_options refresh) b of
               (Inl e, b1) \<Rightarrow> (None, clearTokens b1)
             | (Inr res, b1) \<Rightarrow>
                 if \<not> ok res then (None, clearTokens b1)
                 else
                   (case res_json res of
                      Inl e \<Rightarrow> (None, clearTokens b1)
                    | Inr data \<Rightarrow>
                        (case get_prop data ''access'' of
                           Inl e \<Rightarrow> (None, clearTokens b1)
                         | Inr access \<Rightarrow>
                             if truthy access then
                               (case get_prop data ''refresh'' of
                                  Inl e \<Rightarrow> (None, clearTokens b1)
                                | Inr new_refresh \<Rightarrow>
                                    (access,
                                     saveTokens access
                                       (if truthy new_refresh then new_refresh
                                        else Some (JStr refresh))
                                       None b1))
                             else (None, b1)))))"

text \<open>The \<^verbatim>\<open>opts\<close> that \<^verbatim>\<open>fetchWithAuth\<close> builds: the caller's options with the bearer header.\<close>

definition with_bearer :: "options \<Rightarrow> string \<Rightarrow> options" where
  "with_bearer opts token =
     opts\<lparr>opt_headers :=
            Some (assign ''Authorization'' (''Bearer '' @ token)
                    (case opt_headers opts of None \<Rightarrow> [] | Some h \<Rightarrow> h))\<rparr>"

text \<open>\<^verbatim>\<open>fetchWithAuth(url, options = {})\<close>.\<close>

definition fetchWithAuth :: "network \<Rightarrow> string \<Rightarrow> options \<Rightarrow> browser \<Rightarrow> (error + response) \<times> browser" where
  "fetchWithAuth net u opts0 b =
     (case getAccessToken b of
        None \<Rightarrow> (Inl (Error ''No authentication token available''), b)
      | Some access \<Rightarrow>
          if access = [] then (Inl (Error ''No authentication token available''), b)
          else
            (let opts = with_bearer opts0 access in
             case fetch net u opts b of
               (Inl e, b1) \<Rightarrow> (Inl e, b1)
             | (Inr res, b1) \<Rightarrow>
                 if status res = 401 then
                   (case refreshAccessToken net b1 of
                      (newAccess, b2) \<Rightarrow>
                        if \<not> truthy newAccess then
                          (Inl (Error ''Authentication failed''),
                           b2\<lparr>location_href := Some ''/login''\<rparr>)
                        else fetch net u (with_bearer opts (String newAccess)) b2)
                 else (Inr res, b1)))"

text \<open>The text of \<^verbatim>\<open>err.message\<close>; the platform's own errors carry a non-empty text of its choice.\<close>

fun error_message :: "error \<Rightarrow> string" where
  "error_message (Error m) = m"
| "error_message TypeError = ''TypeError''"
| "error_message SyntaxError = ''SyntaxError''"

text \<open>\<^verbatim>\<open>handleApiResponse(response)\<close>.\<close>

definition handleApiResponse :: "response \<Rightarrow> error + json" where
  "handleApiResponse res =
     (if \<not> ok res then
        (let err = (case res_json res of
                      Inl e \<Rightarrow> JObj [(''detail'', JStr (''HTTP '' @ nat_digits (status res)
                                                       @ '': '' @ statusText res))]
                    | Inr j \<Rightarrow> j)
         in case get_prop err ''detail'' of
              Inl e \<Rightarrow> Inl e
            | Inr detail \<Rightarrow>
                if truthy detail then Inl (Error (String detail))
                else (case get_prop err ''message'' of
                        Inl e \<Rightarrow> Inl e
                      | Inr msg \<Rightarrow>
                          if truthy msg then Inl (Error (String msg))
                          else Inl (Error ''API request failed'')))
      else res_json res)"

section \<open>The requests the session manager sends\<close>

text \<open>The refresh POST, as \<open>fetch\<close> logs it.\<close>

definition refresh_request :: "browser \<Rightarrow> string \<Rightarrow> request" where
  "refresh_request b refresh =
     \<lparr>url = API_BASE b @ ''/api/token/refresh/'', http_method = ''POST'',
      headers = [(''Content-Type'', ''application/json'')],
      body = JsonBody (JObj [(''refresh'', JStr refresh)])\<rparr>"

text \<open>The caller's request with the bearer header for \<open>token\<close>, as \<open>fetch\<close> logs it.\<close>

definition auth_request :: "string \<Rightarrow> options \<Rightarrow> string \<Rightarrow> request" where
  "auth_request u opts token =
     \<lparr>url = u,
      http_method = (case opt_method opts of None \<Rightarrow> ''GET'' | Some m \<Rightarrow> m),
      headers = assign ''Authorization'' (''Bearer '' @ token)
                  (case opt_headers opts of None \<Rightarrow> [] | Some h \<Rightarrow> h),
      body = opt_body opts\<rparr>"

text \<open>The requests of a log that went to the address \<open>u\<close>.\<close>

definition calls_to :: "string \<Rightarrow> request list \<Rightarrow> request list" where
  "calls_to u rs = filter (\<lambda>q. url q = u) rs"

section \<open>Example backends and sessions\<close>

text \<open>A signed-in browser: tokens \<open>A1\<close> and \<open>R1\<close> stored, nothing sent yet.\<close>

definition signed_in :: browser where
  "signed_in =
     \<lparr>localStorage = [''access'' \<mapsto> ''A1'', ''refresh'' \<mapsto> ''R1''],
      location_href = None, requests = [], VITE_API_BASE = None\<rparr>"

definition unauthorized :: response where
  "unauthorized = \<lparr>status = 401, statusText = ''Unauthorized'', res_body = None\<rparr>"

text \<open>
  A backend that renews tokens (the refresh endpoint answers 200 with the access token
  \<open>A2\<close>) and answers 401 to every other request, whatever bearer token it carries.
\<close>

definition rejecting_backend :: network where
  "rejecting_backend history rq =
     (if url rq = ''http://localhost:8000/api/token/refresh/''
      then Inr \<lparr>status = 200, statusText = ''OK'',
                res_body = Some (JObj [(''access'', JStr ''A2'')])\<rparr>
      else Inr unauthorized)"

text \<open>
  A backend on which the access token \<open>A1\<close> has expired: the refresh endpoint answers 200
  with \<open>A2\<close>, a request bearing \<open>A2\<close> is answered 200 with an empty object, every other
  request 401.
\<close>

definition expired_backend :: network where
  "expired_backend history rq =
     (if url rq = ''http://localhost:8000/api/token/refresh/''
      then Inr \<lparr>status = 200, statusText = ''OK'',
                res_body = Some (JObj [(''access'', JStr ''A2'')])\<rparr>
      else if map_of (headers rq) ''Authorization'' = Some ''Bearer A2''
      then Inr \<lparr>status = 200, statusText = ''OK'', res_body = Some (JObj [])\<rparr>
      else Inr unauthorized)"

text \<open>No connection: every \<^verbatim>\<open>fetch\<close> is rejected.\<close>

definition offline :: network where
  "offline history rq = Inl TypeError"

section \<open>A reader for JSON text\<close>

text \<open>
  \<open>json_reader\<close> reads the JSON texts that use no escape sequence in a string and no
  fraction or exponent in a number, and gives \<open>None\<close> on every other text. On the texts of
  the examples below it gives what the platform's \<^verbatim>\<open>JSON.parse\<close> gives; it stands for
  \<^verbatim>\<open>JSON.parse\<close> in those examples only, the properties of \<open>getAuthUser\<close> being stated
  for every parser. The first argument of the three mutually recursive readers bounds the
  depth of the recursion.
\<close>

definition is_json_ws :: "char \<Rightarrow> bool" where
  "is_json_ws c = (c = CHR '' '' \<or> c = CHR 0x09 \<or> c = CHR 0x0A \<or> c = CHR 0x0D)"

definition skip_ws :: "string \<Rightarrow> string" where
  "skip_ws s = dropWhile is_json_ws s"

definition is_digit :: "char \<Rightarrow> bool" where
  "is_digit c = (c \<in> set ''0123456789'')"

definition digit_value :: "char \<Rightarrow> nat" where
  "digit_value c = (of_char c :: nat) - 48"

text \<open>The characters of a string after its opening quote, up to the closing quote.\<close>

fun string_chars :: "string \<Rightarrow> (string \<times> string) option" where
  "string_chars [] = None"
| "string_chars (c # cs) =
     (if c = CHR 0x22 then Some ([], cs)
      else if c = CHR 0x5C \<or> (of_char c :: nat) < 32 then None
      else (case string_chars cs of
              None \<Rightarrow> None
            | Some (s, r) \<Rightarrow> Some (c # s, r)))"

definition number_token :: "string \<Rightarrow> (json \<times> string) option" where
  "number_token s =
     (let negative = (s \<noteq> [] \<and> hd s = CHR ''-'');
          t = (if negative then tl s else s);
          ds = takeWhile is_digit t;
          r = dropWhile is_digit t
      in if ds = [] \<or> (length ds > 1 \<and> hd ds = CHR ''0'') then None
         else if r \<noteq> [] \<and> hd r \<in> set ''.eE'' then None
         else Some (JNum ((if negative then - 1 else 1)
                          * int (foldl (\<lambda>a d. 10 * a + digit_value d) 0 ds)), r))"

fun parse_value :: "nat \<Rightarrow> string \<Rightarrow> (json \<times> string) option"
  and parse_elements :: "nat \<Rightarrow> string \<Rightarrow> (json list \<times> string) option"
  and parse_members :: "nat \<Rightarrow> string \<Rightarrow> ((string \<times> json) list \<times> string) option"
where
  "parse_value 0 s = None"
| "parse_value (Suc n) s =
     (case skip_ws s of
        [] \<Rightarrow> None
      | c # cs \<Rightarrow>
          if c = CHR ''{'' then
            (case skip_ws cs of
               [] \<Rightarrow> None
             | d # ds \<Rightarrow>
                 if d = CHR ''}'' then Some (JObj [], ds)
                 else (case parse_members n cs of
                         None \<Rightarrow> None
                       | Some (kvs, r) \<Rightarrow> Some (JObj kvs, r)))
          else if c = CHR ''['' then
            (case skip_ws cs of
               [] \<Rightarrow> None
             | d # ds \<Rightarrow>
                 if d = CHR '']'' then Some (JArr [], ds)
                 else (case parse_elements n cs of
                         None \<Rightarrow> None
                       | Some (vs, r) \<Rightarrow> Some (JArr vs, r)))
          else if c = CHR 0x22 then
            (case string_chars cs of
               None \<Rightarrow> None
             | Some (str, r) \<Rightarrow> Some (JStr str, r))
          else if take 4 (c # cs) = ''true'' then Some (JBool True, drop 4 (c # cs))
          else if take 5 (c # cs) = ''false'' then Some (JBool False, drop 5 (c # cs))
          else if take 4 (c # cs) = ''null'' then Some (JNull, drop 4 (c # cs))
          else number_token (c # cs))"
| "parse_elements 0 s = None"
| "parse_elements (Suc n) s =
     (case parse_value n s of
        None \<Rightarrow> None
      | Some (v, r) \<Rightarrow>
          (case skip_ws r of
             [] \<Rightarrow> None
           | c # cs \<Rightarrow>
               if c = CHR '','' then
                 (case parse_elements n cs of
                    None \<Rightarrow> None
                  | Some (vs, r') \<Rightarrow> Some (v # vs, r'))
               else if c = CHR '']'' then Some ([v], cs)
               else None))"
| "parse_members 0 s = None"
| "parse_members (Suc n) s =
     (case skip_ws s of
        [] \<Rightarrow> None
      | q # cs \<Rightarrow>
          if q \<noteq> CHR 0x22 then None
          else
            (case string_chars cs of
               None \<Rightarrow> None
             | Some (k, r) \<Rightarrow>
                 (case skip_ws r of
                    [] \<Rightarrow> None
                  | colon # r1 \<Rightarrow>
                      if colon \<noteq> CHR '':'' then None
                      else
                        (case parse_value n r1 of
                           None \<Rightarrow> None
                         | Some (v, r2) \<Rightarrow>
                             (case skip_ws r2 of
                                [] \<Rightarrow> None
                              | c # r3 \<Rightarrow>
                                  if c = CHR '','' then
                                    (case parse_members n r3 of
                                       None \<Rightarrow> None
                                     | Some (kvs, r4) \<Rightarrow> Some ((k, v) # kvs, r4))
                                  else if c = CHR ''}'' then Some ([(k, v)], r3)
                                  else None)))))"

definition json_reader :: "string \<Rightarrow> json option" where
  "json_reader s =
     (case parse_value (2 * length s + 2) s of
        None \<Rightarrow> None
      | Some (v, r) \<Rightarrow> if skip_ws r = [] then Some v else None)"

text \<open>Browsers whose cached user is a JSON object, a cut-off text, and the empty text.\<close>

definition cached_session :: browser where
  "cached_session =
     signed_in\<lparr>localStorage :=
                 (localStorage signed_in)
                   (''authUser'' \<mapsto> ''{\"username\": \"asha\", \"is_staff\": true}'')\<rparr>"

definition corrupt_session :: browser where
  "corrupt_session =
     signed_in\<lparr>localStorage := (localStorage signed_in)(''authUser'' \<mapsto> ''{\"username\": '')\<rparr>"

definition blank_session :: browser where
  "blank_session = signed_in\<lparr>localStorage := (localStorage signed_in)(''authUser'' \<mapsto> [])\<rparr>"

section \<open>The Review View (components/ReviewPage.jsx)\<close>

text \<open>
  One entry of the view's \<^verbatim>\<open>fields\<close> state, as the loader normalizes it. The value is the
  text of the input box.
\<close>

record field =
  field_id :: int
  field_name :: string
  field_value :: string
  confidence_score :: "int option"
  validation_status :: string

text \<open>
  The characters \<^verbatim>\<open>String.prototype.trim\<close> strips, among the 8-bit characters: tab, line
  feed, vertical tab, form feed, carriage return, space and no-break space.
\<close>

definition is_space :: "char \<Rightarrow> bool" where
  "is_space c = ((of_char c :: nat) \<in> {9, 10, 11, 12, 13, 32, 160})"

definition trim :: "string \<Rightarrow> string" where
  "trim s = rev (dropWhile is_space (rev (dropWhile is_space s)))"

text \<open>The two counters computed before rendering (source lines 193 and 194).\<close>

definition failedFields :: "field list \<Rightarrow> nat" where
  "failedFields fs = length (filter (\<lambda>f. validation_status f \<noteq> ''passed'') fs)"

definition missingFields :: "field list \<Rightarrow> nat" where
  "missingFields fs = length (filter (\<lambda>f. field_value f = [] \<or> trim (field_value f) = []) fs)"

text \<open>
  The state classes of a field's row, label and input (source lines 279 to 310). The test
  \<^verbatim>\<open>!f.field_value\<close> holds for the empty text only.
\<close>

definition row_class :: "field \<Rightarrow> string" where
  "row_class f =
     (if validation_status f \<noteq> ''passed'' then ''bg-red-50 ring-1 ring-red-200''
      else if field_value f = [] then ''bg-yellow-50 ring-1 ring-yellow-200''
      else [])"

definition label_class :: "field \<Rightarrow> string" where
  "label_class f =
     (if validation_status f \<noteq> ''passed'' then ''text-red-700''
      else if field_value f = [] then ''text-yellow-700''
      else ''text-gray-700'')"

definition input_class :: "field \<Rightarrow> string" where
  "input_class f =
     (if validation_status f \<noteq> ''passed''
      then ''border-red-300 focus:ring-red-500 focus:border-red-500''
      else if field_value f = []
      then ''border-yellow-300 focus:ring-yellow-500 focus:border-yellow-500''
      else ''border-gray-300 focus:ring-indigo-500 focus:border-indigo-500'')"

text \<open>
  The hooks of the view that the finalize action reads and writes, and the timers it
  starts: \<open>(ms, path)\<close> is a pending \<^verbatim>\<open>setTimeout(() => navigate(path), ms)\<close>.
\<close>

record review_state =
  doc :: "json option"
  review_fields :: "field list"
  message :: "(string \<times> string) option"
  review_error :: "string option"
  timers :: "(nat \<times> string) list"

definition finalize_options :: options where
  "finalize_options = \<lparr>opt_method = Some ''POST'', opt_headers = None, opt_body = NoBody\<rparr>"

definition approve_options :: options where
  "approve_options =
     \<lparr>opt_method = Some ''PATCH'',
      opt_headers = Some [(''Content-Type'', ''application/json'')],
      opt_body = JsonBody (JObj [(''status'', JStr ''approved'')])\<rparr>"

text \<open>The outer \<^verbatim>\<open>catch\<close> block of \<^verbatim>\<open>acceptAndFinalize\<close>.\<close>

definition finalize_failed :: "error \<Rightarrow> review_state \<Rightarrow> review_state" where
  "finalize_failed err st =
     st\<lparr>review_error :=
          Some (if error_message err = [] then ''Failed to finalize document''
                else error_message err),
        message := None\<rparr>"

text \<open>
  \<^verbatim>\<open>acceptAndFinalize()\<close>. The inner \<^verbatim>\<open>try\<close> covers the call of \<open>fetchWithAuth\<close> only, so
  the PATCH is sent when that call throws, and a response of any status leaves the inner
  \<^verbatim>\<open>try\<close> normally and goes to \<open>handleApiResponse\<close>.
\<close>

definition acceptAndFinalize :: "network \<Rightarrow> review_state \<Rightarrow> browser \<Rightarrow> review_state \<times> browser" where
  "acceptAndFinalize net st b =
     (case doc st of
        None \<Rightarrow> (st, b)
      | Some d \<Rightarrow>
          if \<not> truthy (Some d) then (st, b)
          else
            (let st1 = st\<lparr>message := Some (''info'', ''Finalizing...''), review_error := None\<rparr>
             in case get_prop d ''id'' of
                  Inl e \<Rightarrow> (finalize_failed e st1, b)
                | Inr doc_id \<Rightarrow>
                    (case fetchWithAuth net
                            (API_BASE b @ ''/api/documents/'' @ String doc_id @ ''/finalize/'')
                            finalize_options b of
                       (r1, b1) \<Rightarrow>
                         (case (case r1 of
                                  Inl finalizeErr \<Rightarrow>
                                    fetchWithAuth net
                                      (API_BASE b @ ''/api/documents/'' @ String doc_id @ ''/'')
                                      approve_options b1
                                | Inr res \<Rightarrow> (Inr res, b1)) of
                            (Inl err, b2) \<Rightarrow> (finalize_failed err st1, b2)
                          | (Inr res, b2) \<Rightarrow>
                              (case handleApiResponse res of
                                 Inl err \<Rightarrow> (finalize_failed err st1, b2)
                               | Inr result \<Rightarrow>
                                   (st1\<lparr>message :=
                                          Some (''success'',
                                                ''Document finalized successfully! Redirecting to document list...''),
                                        timers := timers st1 @ [(2000, ''/bulk-review'')]\<rparr>,
                                    b2))))))"

text \<open>A loaded review of document 7 with nothing shown yet.\<close>

definition reviewing :: review_state where
  "reviewing =
     \<lparr>doc = Some (JObj [(''id'', JNum 7), (''status'', JStr ''review_pending'')]),
      review_fields = [], message = None, review_error = None, timers = []\<rparr>"

text \<open>
  A backend without the finalize action: a POST to a finalize address is answered
  404 with a page that is not JSON, and every other request (the PATCH among them) is
  answered 200 with the approved document.
\<close>

definition no_finalize_backend :: network where
  "no_finalize_backend history rq =
     (if url rq = ''http://localhost:8000/api/documents/7/finalize/''
      then Inr \<lparr>status = 404, statusText = ''Not Found'', res_body = None\<rparr>
      else Inr \<lparr>status = 200, statusText = ''OK'',
                res_body = Some (JObj [(''id'', JNum 7), (''status'', JStr ''approved'')])\<rparr>)"

text \<open>A backend on which requests to the finalize address fail in transport.\<close>

definition unreachable_finalize_backend :: network where
  "unreachable_finalize_backend history rq =
     (if url rq = ''http://localhost:8000/api/documents/7/finalize/''
      then Inl TypeError
      else Inr \<lparr>status = 200, statusText = ''OK'',
                res_body = Some (JObj [(''id'', JNum 7), (''status'', JStr ''approved'')])\<rparr>)"

section \<open>The Login View (components/LoginPage.jsx)\<close>

text \<open>
  The hooks of the view, and the paths it passed to \<^verbatim>\<open>navigate\<close>, oldest first.
\<close>

record login_state =
  username :: string
  password :: string
  selectedPortal :: string
  loading :: bool
  login_error :: "string option"
  navigated :: "string list"

definition isFormValid :: "login_state \<Rightarrow> bool" where
  "isFormValid st = (length (trim (username st)) > 0 \<and> length (password st) > 0)"

definition token_options :: "login_state \<Rightarrow> options" where
  "token_options st =
     \<lparr>opt_method = Some ''POST'',
      opt_headers = Some [(''Content-Type'', ''application/json'')],
      opt_body = JsonBody (JObj [(''username'', JStr (username st)),
                                 (''password'', JStr (password st))])\<rparr>"

text \<open>The token POST, as \<open>fetch\<close> logs it.\<close>

definition token_request :: "browser \<Rightarrow> login_state \<Rightarrow> request" where
  "token_request b st =
     \<lparr>url = API_BASE b @ ''/api/token/'', http_method = ''POST'',
      headers = [(''Content-Type'', ''application/json'')],
      body = JsonBody (JObj [(''username'', JStr (username st)),
                             (''password'', JStr (password st))])\<rparr>"

text \<open>Optional chaining \<^verbatim>\<open>v?.k\<close>: \<^verbatim>\<open>undefined\<close> on \<^verbatim>\<open>null\<close> instead of a TypeError.\<close>

definition opt_chain :: "json \<Rightarrow> string \<Rightarrow> json option" where
  "opt_chain v k = (case get_prop v k of Inl e \<Rightarrow> None | Inr x \<Rightarrow> x)"

text \<open>
  \<^verbatim>\<open>profile?.role === 'admin' || profile?.is_staff === true || profile?.is_superuser === true\<close>
\<close>

definition isAdminAccount :: "json \<Rightarrow> bool" where
  "isAdminAccount profile =
     (opt_chain profile ''role'' = Some (JStr ''admin'')
      \<or> opt_chain profile ''is_staff'' = Some (JBool True)
      \<or> opt_chain profile ''is_superuser'' = Some (JBool True))"

text \<open>\<^verbatim>\<open>res.ok && data.access && data.refresh\<close>, which throws when \<^verbatim>\<open>data\<close> is \<^verbatim>\<open>null\<close>.\<close>

definition tokens_issued :: "response \<Rightarrow> json \<Rightarrow> error + bool" where
  "tokens_issued res data =
     (if \<not> ok res then Inr False
      else (case get_prop data ''access'' of
              Inl e \<Rightarrow> Inl e
            | Inr a \<Rightarrow>
                if \<not> truthy a then Inr False
                else (case get_prop data ''refresh'' of
                        Inl e \<Rightarrow> Inl e
                      | Inr r \<Rightarrow> Inr (truthy r))))"

text \<open>The outer \<^verbatim>\<open>catch\<close> block followed by \<^verbatim>\<open>finally\<close>.\<close>

definition network_error :: "login_state \<Rightarrow> login_state" where
  "network_error st =
     st\<lparr>login_error := Some ''Network error. Please check your connection and try again.'',
        loading := False\<rparr>"

text \<open>
  The portal gate (source lines 58 to 77), followed by \<^verbatim>\<open>finally\<close>.
\<close>

definition portal_gate :: "bool \<Rightarrow> login_state \<Rightarrow> login_state" where
  "portal_gate isAdmin st =
     (if selectedPortal st = ''admin'' then
        (if \<not> isAdmin then
           st\<lparr>login_error :=
                Some ''Your account is not an admin. Please sign in to the user portal or use an admin account.'',
              loading := False\<rparr>
         else st\<lparr>navigated := navigated st @ [''/admin/users''], loading := False\<rparr>)
      else if selectedPortal st = ''user'' then
        (if isAdmin then
           st\<lparr>login_error :=
                Some ''Admin accounts must sign in via the Admin portal. Please select \"Admin\" and sign in.'',
              loading := False\<rparr>
         else st\<lparr>navigated := navigated st @ [''/home''], loading := False\<rparr>)
      else st\<lparr>loading := False\<rparr>)"

text \<open>
  \<^verbatim>\<open>onSubmit(e)\<close>. \<open>stringify\<close> is the platform's \<^verbatim>\<open>JSON.stringify\<close>. The inner \<^verbatim>\<open>catch\<close>
  (profile fetch failed) stores the user name only and goes to \<open>/home\<close>.
\<close>

definition onSubmit ::
  "(json \<Rightarrow> string) \<Rightarrow> network \<Rightarrow> login_state \<Rightarrow> browser \<Rightarrow> login_state \<times> browser" where
  "onSubmit stringify net st b =
     (if \<not> isFormValid st then
        (st\<lparr>login_error := Some ''Please enter both username and password''\<rparr>, b)
      else
        (let st1 = st\<lparr>loading := True, login_error := None\<rparr> in
         case fetch net (API_BASE b @ ''/api/token/'') (token_options st) b of
           (Inl e, b1) \<Rightarrow> (network_error st1, b1)
         | (Inr res, b1) \<Rightarrow>
             (case res_json res of
                Inl e \<Rightarrow> (network_error st1, b1)
              | Inr data \<Rightarrow>
                  (case tokens_issued res data of
                     Inl e \<Rightarrow> (network_error st1, b1)
                   | Inr False \<Rightarrow>
                       (case get_prop data ''detail'' of
                          Inl e \<Rightarrow> (network_error st1, b1)
                        | Inr detail \<Rightarrow>
                            (st1\<lparr>login_error :=
                                   Some (if truthy detail then String detail
                                         else ''Invalid username or password''),
                                 loading := False\<rparr>,
                             b1))
                   | Inr True \<Rightarrow>
                       (let access = opt_chain data ''access'';
                            refresh = opt_chain data ''refresh'';
                            b2 = saveTokens access refresh None b1
                        in case fetchWithAuth net (API_BASE b @ ''/api/profile/'') no_options b2 of
                             (Inl err, b3) \<Rightarrow>
                               (st1\<lparr>navigated := navigated st1 @ [''/home''], loading := False\<rparr>,
                                saveTokens access refresh
                                  (Some (stringify (JObj [(''username'', JStr (username st))])))
                                  b3)
                           | (Inr profileRes, b3) \<Rightarrow>
                               (case handleApiResponse profileRes of
                                  Inl err \<Rightarrow>
                                    (st1\<lparr>navigated := navigated st1 @ [''/home''],
                                         loading := False\<rparr>,
                                     saveTokens access refresh
                                       (Some (stringify (JObj [(''username'', JStr (username st))])))
                                       b3)
                                | Inr profile \<Rightarrow>
                                    (portal_gate (isAdminAccount profile) st1,
                                     saveTokens access refresh
                                       (if truthy (Some profile) then Some (stringify profile)
                                        else None)
                                       b3)))))))"

text \<open>
  \<^verbatim>\<open>JSON.stringify\<close> on the values of \<open>json\<close> whose strings hold no control character.
\<close>

definition quote :: "string \<Rightarrow> string" where
  "quote s =
     CHR 0x22
     # concat (map (\<lambda>c. if c = CHR 0x22 \<or> c = CHR 0x5C then [CHR 0x5C, c] else [c]) s)
     @ [CHR 0x22]"

fun json_writer :: "json \<Rightarrow> string" where
  "json_writer JNull = ''null''"
| "json_writer (JBool b) = (if b then ''true'' else ''false'')"
| "json_writer (JNum n) = int_digits n"
| "json_writer (JStr s) = quote s"
| "json_writer (JArr xs) = ''['' @ join '','' (map json_writer xs) @ '']''"
| "json_writer (JObj kvs) =
     ''{'' @ join '','' (map (\<lambda>kv. quote (fst kv) @ '':'' @ json_writer (snd kv)) kvs) @ ''}''"

text \<open>A browser with nothing stored, and the filled login form of the user \<open>asha\<close>.\<close>

definition signed_out :: browser where
  "signed_out =
     \<lparr>localStorage = Map.empty, location_href = None, requests = [], VITE_API_BASE = None\<rparr>"

definition login_form :: "string \<Rightarrow> login_state" where
  "login_form portal =
     \<lparr>username = ''asha'', password = ''secret'', selectedPortal = portal, loading = False,
      login_error = None, navigated = []\<rparr>"

text \<open>
  A backend that issues the tokens \<open>A1\<close> and \<open>R1\<close> and answers the profile request with
  the profile given, and every other request with 404.
\<close>

definition issuing_backend :: "json \<Rightarrow> network" where
  "issuing_backend profile history rq =
     (if url rq = ''http://localhost:8000/api/token/''
      then Inr \<lparr>status = 200, statusText = ''OK'',
                res_body = Some (JObj [(''access'', JStr ''A1''), (''refresh'', JStr ''R1'')])\<rparr>
      else if url rq = ''http://localhost:8000/api/profile/''
      then Inr \<lparr>status = 200, statusText = ''OK'', res_body = Some profile\<rparr>
      else Inr \<lparr>status = 404, statusText = ''Not Found'', res_body = None\<rparr>)"

definition admin_profile :: json where
  "admin_profile = JObj [(''username'', JStr ''asha''), (''role'', JStr ''admin'')]"

definition employee_profile :: json where
  "employee_profile =
     JObj [(''username'', JStr ''asha''), (''role'', JStr ''employee''),
           (''is_staff'', JBool False)]"

section \<open>The persisted data model (api/models.py)\<close>

text \<open>
  The abstract \<^verbatim>\<open>BaseModel\<close>: the audit and soft-delete columns every table carries.
  References to users are their keys, times are instants on some clock.
\<close>

record BaseModel =
  created_by :: "nat option"
  updated_by :: "nat option"
  deleted_by :: "nat option"
  created_at :: nat
  updated_at :: nat
  deleted_at :: "nat option"
  is_deleted :: bool

text \<open>
  A row of \<^verbatim>\<open>Attendance\<close>: the key \<^verbatim>\<open>id\<close> that the framework adds, the student and the
  center by their keys, the date as (year, month, day) and the status.
\<close>

record Attendance = BaseModel +
  pk :: nat
  student :: nat
  center :: nat
  date :: "nat \<times> nat \<times> nat"
  attendance_status :: string

definition STATUS_CHOICES :: "(string \<times> string) list" where
  "STATUS_CHOICES = [(''present'', ''Present''), (''absent'', ''Absent''), (''excused'', ''Excused'')]"

text \<open>\<^verbatim>\<open>Meta.unique_together\<close> of \<^verbatim>\<open>Attendance\<close> (source line 375).\<close>

definition unique_together :: "string list" where
  "unique_together = [''student'', ''date'']"

datatype column_value = KeyValue nat | DateValue nat nat nat | TextValue string

text \<open>The value a row holds in the column of a declared field; \<open>None\<close> for any other name.\<close>

definition column :: "string \<Rightarrow> Attendance \<Rightarrow> column_value option" where
  "column c r =
     (if c = ''id'' then Some (KeyValue (pk r))
      else if c = ''student'' then Some (KeyValue (student r))
      else if c = ''center'' then Some (KeyValue (center r))
      else if c = ''date'' then
        (case date r of (y, m, d) \<Rightarrow> Some (DateValue y m d))
      else if c = ''status'' then Some (TextValue (attendance_status r))
      else None)"

text \<open>The values of a row in the columns that \<open>unique_together\<close> names.\<close>

definition unique_key :: "Attendance \<Rightarrow> column_value option list" where
  "unique_key r = map (\<lambda>c. column c r) unique_together"

datatype db_error = IntegrityError

text \<open>
  Modelled from the spec: the operation that persists an \<^verbatim>\<open>Attendance\<close> record is missing
  from the repository, which holds the schema declaration only (the specification:
  "attempting to persist two Attendance records for the same (student, date) pair violates
  the uniqueness invariant"). A record is stored under its key, replacing the row of the
  same key if there is one; the attempt is refused with an integrity error when another
  row, soft-deleted or not, holds the same values in the \<open>unique_together\<close> columns.
\<close>

definition persist :: "Attendance list \<Rightarrow> Attendance \<Rightarrow> db_error + Attendance list" where
  "persist table r =
     (if \<exists>x \<in> set table. pk x \<noteq> pk r \<and> unique_key x = unique_key r then Inl IntegrityError
      else Inr (r # filter (\<lambda>x. pk x \<noteq> pk r) table))"

text \<open>
  Modelled from the spec: a run of attempts to persist records, one after the other; a
  refused attempt leaves the table as it was.
\<close>

fun persist_all :: "Attendance list \<Rightarrow> Attendance list \<Rightarrow> Attendance list" where
  "persist_all table [] = table"
| "persist_all table (r # rs) =
     (case persist table r of
        Inl e \<Rightarrow> persist_all table rs
      | Inr table' \<Rightarrow> persist_all table' rs)"

text \<open>An attendance record with the audit columns of a fresh row.\<close>

definition attendance :: "nat \<Rightarrow> nat \<Rightarrow> nat \<times> nat \<times> nat \<Rightarrow> string \<Rightarrow> Attendance" where
  "attendance k s d st =
     \<lparr>created_by = None, updated_by = None, deleted_by = None, created_at = 0, updated_at = 0,
      deleted_at = None, is_deleted = False,
      pk = k, student = s, center = 1, date = d, attendance_status = st\<rparr>"

text \<open>
  The invariant of a table: keys are not repeated, and rows of different keys differ in
  the \<open>unique_together\<close> columns.
\<close>

definition table_ok :: "Attendance list \<Rightarrow> bool" where
  "table_ok t =
     (distinct (map pk t)
      \<and> (\<forall>x \<in> set t. \<forall>y \<in> set t. pk x \<noteq> pk y \<longrightarrow> unique_key x \<noteq> unique_key y))"

section \<open>Properties of the string primitives\<close>

lemma split_not_Nil: "split d s \<noteq> []"
  by (induction s) auto

lemma split_without_separator: "d \<notin> set s \<Longrightarrow> split d s = [s]"
  by (induction s) auto

lemma tl_split_Nil: "tl (split d s) = [] \<longleftrightarrow> d \<notin> set s"
  by (induction s) (auto simp: split_not_Nil)

lemma last_split: "last (split d s) = rev (takeWhile (\<lambda>c. c \<noteq> d) (rev s))"
proof (induction s)
  case Nil
  show ?case by simp
next
  case (Cons c cs)
  show ?case
  proof (cases "c = d")
    case True
    then show ?thesis using Cons by (simp add: split_not_Nil takeWhile_append)
  next
    case False
    show ?thesis
    proof (cases "d \<in> set cs")
      case True
      then have "tl (split d cs) \<noteq> []" by (simp add: tl_split_Nil)
      then have "last (split d (c # cs)) = last (split d cs)" using False
        by (simp add: split_not_Nil last_tl)
      then show ?thesis using Cons True False by (auto simp add: takeWhile_append)
    next
      case False
      then show ?thesis using \<open>c \<noteq> d\<close>
        by (simp add: split_without_separator takeWhile_append)
    qed
  qed
qed

lemma fileExtension_spec: "fileExtension nm = Inr (spec_extension nm)"
  by (simp add: fileExtension_def pop_def split_not_Nil last_split spec_extension_def
      last_dot_segment_def)

lemma last_dot_segment_dotless:
  assumes "CHR ''.'' \<notin> set nm"
  shows "last_dot_segment nm = nm"
proof -
  have "takeWhile (\<lambda>c. c \<noteq> CHR ''.'') (rev nm) = rev nm"
    by (rule takeWhile_eq_all_conv [THEN iffD2]) (use assms in auto)
  then show ?thesis
    unfolding last_dot_segment_def by (simp only: rev_rev_ident)
qed

lemma join_extensions: "join '', '' ALLOWED_FILE_EXTENSIONS = ''.pdf, .jpg, .jpeg, .png''"
  by (simp add: ALLOWED_FILE_EXTENSIONS_def)

section \<open>The validators\<close>

lemma validateFile_cases:
  "validateFile formatted_max f =
     Inr (if violates_type f then
            \<lparr>isValid = False,
             error = Some ''Invalid file type. Allowed types: PDF, JPG, JPEG, PNG''\<rparr>
          else if violates_extension f then
            \<lparr>isValid = False,
             error = Some ''Invalid file extension. Allowed extensions: .pdf, .jpg, .jpeg, .png''\<rparr>
          else if violates_size f then
            \<lparr>isValid = False,
             error = Some (''File too large. Maximum size is '' @ formatted_max)\<rparr>
          else \<lparr>isValid = True, error = None\<rparr>)"
  by (simp add: validateFile_def fileExtension_spec array_includes_def violates_type_def
      violates_extension_def violates_size_def join_extensions)

lemma validate_step_messages: "validate_step errors f = Inr (errors @ violation_messages f)"
  by (simp add: validate_step_def fileExtension_spec array_includes_def violates_type_def
      violates_extension_def violates_size_def join_extensions violation_messages_def)

lemma validate_loop_messages:
  "validate_loop errors fs = Inr (errors @ concat (map violation_messages fs))"
  by (induction fs arbitrary: errors) (simp_all add: validate_step_messages)

lemma validateFiles_messages: "validateFiles fs = Inr (concat (map violation_messages fs))"
  by (simp add: validateFiles_def validate_loop_messages)

lemma violation_messages_Nil:
  "violation_messages f = [] \<longleftrightarrow> \<not> (violates_type f \<or> violates_extension f \<or> violates_size f)"
  by (simp add: violation_messages_def)

lemma MAX_FILE_SIZE_value: "MAX_FILE_SIZE = 10485760"
  by (simp add: MAX_FILE_SIZE_def)

text \<open>
  C4 (as amended). For a file whose media type is one of the four allowed types and whose
  extension is one of the four allowed extensions, the shared \<open>validateFile\<close> and the
  Upload View's own \<open>validateFiles\<close> both accept it at exactly 10,485,760 bytes and both
  reject it at 10,485,761 bytes with the size message. A file named \<open>x.pdf\<close> with the
  declared media type \<open>image/png\<close> is accepted by both at every size within the limit:
  the type and the extension are each looked up in their own list and never compared with
  each other.
\<close>

theorem validateFile_boundary:
  assumes "array_includes ALLOWED_FILE_TYPES (file_type f)"
    and "fileExtension (file_name f) = Inr ext"
    and "array_includes ALLOWED_FILE_EXTENSIONS ext"
  shows "validateFile formatted_max (f\<lparr>file_size := 10485760\<rparr>)
           = Inr \<lparr>isValid = True, error = None\<rparr>
       \<and> validateFiles [f\<lparr>file_size := 10485760\<rparr>] = Inr []
       \<and> validateFile formatted_max (f\<lparr>file_size := 10485761\<rparr>)
           = Inr \<lparr>isValid = False,
                  error = Some (''File too large. Maximum size is '' @ formatted_max)\<rparr>
       \<and> validateFiles [f\<lparr>file_size := 10485761\<rparr>]
           = Inr [file_name f @ '': File too large. Maximum size is 10MB'']
       \<and> (\<forall>n \<le> 10485760.
            validateFile formatted_max
              \<lparr>file_name = ''x.pdf'', file_type = ''image/png'', file_size = n\<rparr>
              = Inr \<lparr>isValid = True, error = None\<rparr>
          \<and> validateFiles [\<lparr>file_name = ''x.pdf'', file_type = ''image/png'', file_size = n\<rparr>]
              = Inr [])"
proof -
  have ty: "\<not> violates_type (f\<lparr>file_size := n\<rparr>)" for n
    using assms(1) by (simp add: violates_type_def array_includes_def)
  have ex: "\<not> violates_extension (f\<lparr>file_size := n\<rparr>)" for n
    using assms(2,3) by (simp add: violates_extension_def array_includes_def fileExtension_spec)
  have lo: "\<not> violates_size (f\<lparr>file_size := 10485760\<rparr>)"
    by (simp add: violates_size_def MAX_FILE_SIZE_value)
  have hi: "violates_size (f\<lparr>file_size := 10485761\<rparr>)"
    by (simp add: violates_size_def MAX_FILE_SIZE_value)
  have xext: "spec_extension ''x.pdf'' = ''.pdf''"
    by (simp add: spec_extension_def last_dot_segment_def toLowerCase_def lower_char_def)
  have x: "\<not> violates_type \<lparr>file_name = ''x.pdf'', file_type = ''image/png'', file_size = n\<rparr>
         \<and> \<not> violates_extension \<lparr>file_name = ''x.pdf'', file_type = ''image/png'', file_size = n\<rparr>"
    for n
    by (simp add: violates_type_def violates_extension_def xext ALLOWED_FILE_TYPES_def
        ALLOWED_FILE_EXTENSIONS_def)
  have xs: "n \<le> 10485760 \<Longrightarrow>
      \<not> violates_size \<lparr>file_name = ''x.pdf'', file_type = ''image/png'', file_size = n\<rparr>" for n
    by (simp add: violates_size_def MAX_FILE_SIZE_value)
  show ?thesis
    using ty ex lo hi x xs
    by (simp add: validateFile_cases validateFiles_messages violation_messages_def)
qed

theorem validateFile_boundary_witness:
  "validateFile ''10 MB''
     \<lparr>file_name = ''scan.PDF'', file_type = ''application/pdf'', file_size = 10485760\<rparr>
     = Inr \<lparr>isValid = True, error = None\<rparr>
   \<and> validateFiles
       [\<lparr>file_name = ''scan.PDF'', file_type = ''application/pdf'', file_size = 10485761\<rparr>]
     = Inr [''scan.PDF: File too large. Maximum size is 10MB'']"
proof -
  have t: "array_includes ALLOWED_FILE_TYPES ''application/pdf''"
    by (simp add: array_includes_def ALLOWED_FILE_TYPES_def)
  have e: "fileExtension ''scan.PDF'' = Inr ''.pdf''"
    by (simp add: fileExtension_def pop_def toLowerCase_def lower_char_def)
  have a: "array_includes ALLOWED_FILE_EXTENSIONS ''.pdf''"
    by (simp add: array_includes_def ALLOWED_FILE_EXTENSIONS_def)
  show ?thesis
    using validateFile_boundary
      [of "\<lparr>file_name = ''scan.PDF'', file_type = ''application/pdf'', file_size = 0\<rparr>"
          "''.pdf''" "''10 MB''"] t e a
    by simp
qed

text \<open>
  The claim as written fails: \<open>x.pdf\<close> declared as \<open>image/png\<close>, 1024 bytes long, is
  valid for the shared helper and produces no message in the Upload View.
\<close>

theorem validateFile_type_mismatch_counterexample:
  "validateFile ''10 MB''
     \<lparr>file_name = ''x.pdf'', file_type = ''image/png'', file_size = 1024\<rparr>
     = Inr \<lparr>isValid = True, error = None\<rparr>
   \<and> validateFiles [\<lparr>file_name = ''x.pdf'', file_type = ''image/png'', file_size = 1024\<rparr>]
     = Inr []"
  by (simp add: validateFile_def validateFiles_def validate_step_def fileExtension_def pop_def
      toLowerCase_def lower_char_def array_includes_def ALLOWED_FILE_TYPES_def
      ALLOWED_FILE_EXTENSIONS_def MAX_FILE_SIZE_def)

text \<open>
  C10 (as amended). For a file whose name contains no dot, both validators compute the
  extension as a dot followed by the whole lower-cased name, and the computation does not
  fail. With an allowed media type and a size within the limit, such a file passes both
  validators exactly when its lower-cased name is \<open>pdf\<close>, \<open>jpg\<close>, \<open>jpeg\<close> or \<open>png\<close>;
  every other dotless name is rejected with the extension message.
\<close>

theorem dotless_name_extension:
  assumes "CHR ''.'' \<notin> set (file_name f)"
  shows "fileExtension (file_name f) = Inr (CHR ''.'' # toLowerCase (file_name f))
       \<and> (array_includes ALLOWED_FILE_TYPES (file_type f) \<and> file_size f \<le> MAX_FILE_SIZE \<longrightarrow>
            (if toLowerCase (file_name f) \<in> {''pdf'', ''jpg'', ''jpeg'', ''png''}
             then validateFile formatted_max f = Inr \<lparr>isValid = True, error = None\<rparr>
                \<and> validateFiles [f] = Inr []
             else validateFile formatted_max f
                    = Inr \<lparr>isValid = False,
                           error = Some ''Invalid file extension. Allowed extensions: .pdf, .jpg, .jpeg, .png''\<rparr>
                \<and> validateFiles [f]
                    = Inr [file_name f
                           @ '': Invalid file extension. Allowed extensions: .pdf, .jpg, .jpeg, .png'']))"
proof -
  have ext: "spec_extension (file_name f) = CHR ''.'' # toLowerCase (file_name f)"
    using assms by (simp add: spec_extension_def last_dot_segment_dotless)
  have viol: "violates_extension f
                \<longleftrightarrow> toLowerCase (file_name f) \<notin> {''pdf'', ''jpg'', ''jpeg'', ''png''}"
    by (auto simp add: violates_extension_def ext ALLOWED_FILE_EXTENSIONS_def)
  show ?thesis
    by (simp add: fileExtension_spec ext validateFile_cases validateFiles_messages
        violation_messages_def viol violates_type_def violates_size_def array_includes_def)
qed

theorem dotless_name_extension_witness:
  "fileExtension ''png'' = Inr ''.png''
   \<and> validateFile ''10 MB'' \<lparr>file_name = ''png'', file_type = ''image/png'', file_size = 7\<rparr>
       = Inr \<lparr>isValid = True, error = None\<rparr>
   \<and> validateFiles [\<lparr>file_name = ''notes'', file_type = ''image/png'', file_size = 7\<rparr>]
       = Inr [''notes: Invalid file extension. Allowed extensions: .pdf, .jpg, .jpeg, .png'']"
proof -
  have t: "array_includes ALLOWED_FILE_TYPES ''image/png''"
    by (simp add: array_includes_def ALLOWED_FILE_TYPES_def)
  have s: "(7::nat) \<le> MAX_FILE_SIZE"
    by (simp add: MAX_FILE_SIZE_def)
  have l: "toLowerCase ''png'' = ''png''" "toLowerCase ''notes'' = ''notes''"
    by (simp_all add: toLowerCase_def lower_char_def)
  show ?thesis
    using dotless_name_extension
      [of "\<lparr>file_name = ''png'', file_type = ''image/png'', file_size = 7\<rparr>" "''10 MB''"]
      dotless_name_extension
      [of "\<lparr>file_name = ''notes'', file_type = ''image/png'', file_size = 7\<rparr>" "''10 MB''"]
      t s l
    by simp
qed

text \<open>
  The claim as written fails at the dotless name \<open>PDF\<close>: it is none of the four literal
  names, yet it passes both validators.
\<close>

theorem dotless_name_counterexample:
  "''PDF'' \<notin> {''pdf'', ''jpg'', ''jpeg'', ''png''}
   \<and> CHR ''.'' \<notin> set ''PDF''
   \<and> validateFile ''10 MB''
       \<lparr>file_name = ''PDF'', file_type = ''application/pdf'', file_size = 1024\<rparr>
       = Inr \<lparr>isValid = True, error = None\<rparr>
   \<and> validateFiles [\<lparr>file_name = ''PDF'', file_type = ''application/pdf'', file_size = 1024\<rparr>]
       = Inr []"
  by (simp add: validateFile_def validateFiles_def validate_step_def fileExtension_def pop_def
      toLowerCase_def lower_char_def array_includes_def ALLOWED_FILE_TYPES_def
      ALLOWED_FILE_EXTENSIONS_def MAX_FILE_SIZE_def)

text \<open>
  C5. In the Upload View a selection with at least one file that breaks the type, the
  extension or the size rule is rejected as a whole: the selected files become empty, the
  file input is emptied, and the error is every violation message of the selection joined
  by newlines. A selection in which every file is valid is stored and the error is unset.
\<close>

theorem onFilesChange_all_or_nothing:
  "((\<exists>f \<in> set selected. violates_type f \<or> violates_extension f \<or> violates_size f) \<longrightarrow>
      onFilesChange selected st
        = Inr (st\<lparr>files := [],
                  fileInput := map_option (\<lambda>_. []) (fileInput st),
                  upload_error :=
                    Some (join [CHR 0x0A] (concat (map violation_messages selected)))\<rparr>))
   \<and> ((\<forall>f \<in> set selected. \<not> (violates_type f \<or> violates_extension f \<or> violates_size f)) \<longrightarrow>
      onFilesChange selected st = Inr (st\<lparr>files := selected, upload_error := None\<rparr>))"
proof -
  have "concat (map violation_messages selected) = []
          \<longleftrightarrow> (\<forall>f \<in> set selected. \<not> (violates_type f \<or> violates_extension f \<or> violates_size f))"
    by (simp add: violation_messages_Nil)
  then show ?thesis
    by (auto simp add: onFilesChange_def validateFiles_messages map_option_case
        split: option.splits)
qed

theorem onFilesChange_all_or_nothing_witness:
  "onFilesChange
     [\<lparr>file_name = ''a.png'', file_type = ''image/png'', file_size = 5\<rparr>,
      \<lparr>file_name = ''b.gif'', file_type = ''image/gif'', file_size = 5\<rparr>]
     \<lparr>files = [], upload_error = None, fileInput = Some []\<rparr>
   = Inr \<lparr>files = [],
          upload_error =
            Some (''b.gif: Invalid file type. Allowed types: PDF, JPG, JPEG, PNG''
                  @ [CHR 0x0A]
                  @ ''b.gif: Invalid file extension. Allowed extensions: .pdf, .jpg, .jpeg, .png''),
          fileInput = Some []\<rparr>
   \<and> onFilesChange
       [\<lparr>file_name = ''a.png'', file_type = ''image/png'', file_size = 5\<rparr>]
       \<lparr>files = [], upload_error = Some ''old'', fileInput = Some []\<rparr>
     = Inr \<lparr>files = [\<lparr>file_name = ''a.png'', file_type = ''image/png'', file_size = 5\<rparr>],
            upload_error = None, fileInput = Some []\<rparr>"
proof -
  have e: "spec_extension ''a.png'' = ''.png''" "spec_extension ''b.gif'' = ''.gif''"
    by (simp_all add: spec_extension_def last_dot_segment_def toLowerCase_def lower_char_def)
  have a: "\<not> violates_type \<lparr>file_name = ''a.png'', file_type = ''image/png'', file_size = 5\<rparr>"
    "\<not> violates_extension \<lparr>file_name = ''a.png'', file_type = ''image/png'', file_size = 5\<rparr>"
    "\<not> violates_size \<lparr>file_name = ''a.png'', file_type = ''image/png'', file_size = 5\<rparr>"
    by (simp_all add: violates_type_def violates_extension_def violates_size_def e
        ALLOWED_FILE_TYPES_def ALLOWED_FILE_EXTENSIONS_def MAX_FILE_SIZE_def)
  have b: "violates_type \<lparr>file_name = ''b.gif'', file_type = ''image/gif'', file_size = 5\<rparr>"
    "violates_extension \<lparr>file_name = ''b.gif'', file_type = ''image/gif'', file_size = 5\<rparr>"
    "\<not> violates_size \<lparr>file_name = ''b.gif'', file_type = ''image/gif'', file_size = 5\<rparr>"
    by (simp_all add: violates_type_def violates_extension_def violates_size_def e
        ALLOWED_FILE_TYPES_def ALLOWED_FILE_EXTENSIONS_def MAX_FILE_SIZE_def)
  show ?thesis
    using onFilesChange_all_or_nothing
      [of "[\<lparr>file_name = ''a.png'', file_type = ''image/png'', file_size = 5\<rparr>,
            \<lparr>file_name = ''b.gif'', file_type = ''image/gif'', file_size = 5\<rparr>]"
          "\<lparr>files = [], upload_error = None, fileInput = Some []\<rparr>"]
      onFilesChange_all_or_nothing
      [of "[\<lparr>file_name = ''a.png'', file_type = ''image/png'', file_size = 5\<rparr>]"
          "\<lparr>files = [], upload_error = Some ''old'', fileInput = Some []\<rparr>"]
      a b
    by (simp add: violation_messages_def)
qed

section \<open>The session and token manager\<close>

lemma clearTokens_fields:
  "localStorage (clearTokens b)
     = (localStorage b)(''access'' := None, ''refresh'' := None, ''authUser'' := None)"
  "requests (clearTokens b) = requests b"
  "location_href (clearTokens b) = location_href b"
  "VITE_API_BASE (clearTokens b) = VITE_API_BASE b"
  by (simp_all add: clearTokens_def removeItem_def ACCESS_TOKEN_KEY_def REFRESH_TOKEN_KEY_def
      AUTH_USER_KEY_def)

lemma saveTokens_fields:
  "requests (saveTokens a r u b) = requests b"
  "location_href (saveTokens a r u b) = location_href b"
  "VITE_API_BASE (saveTokens a r u b) = VITE_API_BASE b"
  by (simp_all add: saveTokens_def setItem_def Let_def split: option.splits)

lemma API_BASE_requests: "API_BASE (b\<lparr>requests := x\<rparr>) = API_BASE b"
  by (simp add: API_BASE_def)

lemma fetch_refresh:
  "fetch net (API_BASE b @ ''/api/token/refresh/'') (refresh_options refresh) b
     = (net (requests b) (refresh_request b refresh),
        b\<lparr>requests := requests b @ [refresh_request b refresh]\<rparr>)"
  by (simp add: fetch_def refresh_options_def refresh_request_def Let_def)

lemma fetch_with_bearer:
  "fetch net u (with_bearer opts t) b
     = (net (requests b) (auth_request u opts t),
        b\<lparr>requests := requests b @ [auth_request u opts t]\<rparr>)"
  by (simp add: fetch_def with_bearer_def auth_request_def Let_def)

lemma request_urls:
  "url (auth_request u opts t) = u"
  "url (refresh_request b rt) = API_BASE b @ ''/api/token/refresh/''"
  by (simp_all add: auth_request_def refresh_request_def)

lemma refresh_request_requests: "refresh_request (b\<lparr>requests := x\<rparr>) rt = refresh_request b rt"
  by (simp add: refresh_request_def API_BASE_requests)

subsection \<open>Token renewal\<close>

lemma refreshAccessToken_absent:
  "getRefreshToken b = None \<or> getRefreshToken b = Some [] \<Longrightarrow>
   refreshAccessToken net b = (None, b)"
  by (auto simp add: refreshAccessToken_def)

lemma refreshAccessToken_failed:
  assumes "getRefreshToken b = Some rt" and "rt \<noteq> []"
    and "net (requests b) (refresh_request b rt) = Inl e
         \<or> net (requests b) (refresh_request b rt) = Inr res \<and> \<not> ok res"
  shows "refreshAccessToken net b
           = (None, clearTokens (b\<lparr>requests := requests b @ [refresh_request b rt]\<rparr>))"
  using assms by (auto simp add: refreshAccessToken_def fetch_refresh)

lemma refreshAccessToken_renewed:
  assumes "getRefreshToken b = Some rt" and "rt \<noteq> []"
    and "net (requests b) (refresh_request b rt) = Inr res" and "ok res"
    and "res_body res = Some (JObj kvs)" and "truthy (map_of (rev kvs) ''access'')"
  shows "refreshAccessToken net b
           = (map_of (rev kvs) ''access'',
              saveTokens (map_of (rev kvs) ''access'')
                (if truthy (map_of (rev kvs) ''refresh'') then map_of (rev kvs) ''refresh''
                 else Some (JStr rt))
                None (b\<lparr>requests := requests b @ [refresh_request b rt]\<rparr>))"
  using assms by (simp add: refreshAccessToken_def fetch_refresh res_json_def)

lemma refreshAccessToken_requests:
  "requests (snd (refreshAccessToken net b)) = requests b
   \<or> (\<exists>rt. requests (snd (refreshAccessToken net b)) = requests b @ [refresh_request b rt])"
  by (auto simp add: refreshAccessToken_def fetch_refresh clearTokens_fields saveTokens_fields
      split: option.splits sum.splits prod.splits)

lemma refreshAccessToken_truthy_requests:
  "truthy (fst (refreshAccessToken net b)) \<Longrightarrow>
   \<exists>rt. requests (snd (refreshAccessToken net b)) = requests b @ [refresh_request b rt]"
  by (auto simp add: refreshAccessToken_def fetch_refresh clearTokens_fields saveTokens_fields
      split: option.splits sum.splits prod.splits if_splits)

lemma stored_after_clear:
  "getAccessToken (clearTokens b) = None"
  "getRefreshToken (clearTokens b) = None"
  "getItem AUTH_USER_KEY (clearTokens b) = None"
  by (simp_all add: getAccessToken_def getRefreshToken_def getItem_def clearTokens_fields
      ACCESS_TOKEN_KEY_def REFRESH_TOKEN_KEY_def AUTH_USER_KEY_def)

lemma stored_after_save:
  assumes "truthy a" and "truthy r"
  shows "getAccessToken (saveTokens a r None b) = Some (String a)"
    and "getRefreshToken (saveTokens a r None b) = Some (String r)"
    and "getItem AUTH_USER_KEY (saveTokens a r None b) = getItem AUTH_USER_KEY b"
  using assms
  by (simp_all add: getAccessToken_def getRefreshToken_def getItem_def saveTokens_def
      setItem_def ACCESS_TOKEN_KEY_def REFRESH_TOKEN_KEY_def AUTH_USER_KEY_def)

text \<open>
  C2. With a stored refresh token: when the refresh POST fails in transport or is answered
  with a non-success status, \<open>refreshAccessToken\<close> returns no value and afterwards the
  access token, the refresh token and the cached user are all absent; when it is answered
  with a success status and a body carrying an access token, that token is returned and
  stored (so \<open>getAccessToken\<close> gives it), the refresh token of the response is stored if the
  response carries one and the old one is kept otherwise, and the cached user is not
  touched. Without a stored refresh token it returns no value and leaves the browser as it
  was, the request log included: no HTTP call is made.
\<close>

theorem refreshAccessToken_contract:
  "(getRefreshToken b = Some refresh \<and> refresh \<noteq> [] \<and>
      (net (requests b) (refresh_request b refresh) = Inl e
       \<or> net (requests b) (refresh_request b refresh) = Inr res \<and> \<not> ok res) \<longrightarrow>
      fst (refreshAccessToken net b) = None
      \<and> getAccessToken (snd (refreshAccessToken net b)) = None
      \<and> getRefreshToken (snd (refreshAccessToken net b)) = None
      \<and> getItem AUTH_USER_KEY (snd (refreshAccessToken net b)) = None
      \<and> requests (snd (refreshAccessToken net b)) = requests b @ [refresh_request b refresh])
 \<and> (getRefreshToken b = Some refresh \<and> refresh \<noteq> [] \<and>
      net (requests b) (refresh_request b refresh) = Inr res \<and> ok res \<and>
      res_body res = Some (JObj kvs) \<and> truthy (map_of (rev kvs) ''access'') \<longrightarrow>
      fst (refreshAccessToken net b) = map_of (rev kvs) ''access''
      \<and> getAccessToken (snd (refreshAccessToken net b))
          = Some (String (map_of (rev kvs) ''access''))
      \<and> getRefreshToken (snd (refreshAccessToken net b))
          = Some (if truthy (map_of (rev kvs) ''refresh'')
                  then String (map_of (rev kvs) ''refresh'') else refresh)
      \<and> getItem AUTH_USER_KEY (snd (refreshAccessToken net b)) = getItem AUTH_USER_KEY b
      \<and> requests (snd (refreshAccessToken net b)) = requests b @ [refresh_request b refresh])
 \<and> (getRefreshToken b = None \<or> getRefreshToken b = Some [] \<longrightarrow>
      refreshAccessToken net b = (None, b))"
proof (intro conjI impI)
  assume a: "getRefreshToken b = Some refresh \<and> refresh \<noteq> [] \<and>
      (net (requests b) (refresh_request b refresh) = Inl e
       \<or> net (requests b) (refresh_request b refresh) = Inr res \<and> \<not> ok res)"
  then have r: "refreshAccessToken net b
      = (None, clearTokens (b\<lparr>requests := requests b @ [refresh_request b refresh]\<rparr>))"
    using refreshAccessToken_failed [of b refresh net e res] by blast
  show "fst (refreshAccessToken net b) = None"
    and "getAccessToken (snd (refreshAccessToken net b)) = None"
    and "getRefreshToken (snd (refreshAccessToken net b)) = None"
    and "getItem AUTH_USER_KEY (snd (refreshAccessToken net b)) = None"
    and "requests (snd (refreshAccessToken net b)) = requests b @ [refresh_request b refresh]"
    by (simp_all add: r stored_after_clear clearTokens_fields)
next
  assume a: "getRefreshToken b = Some refresh \<and> refresh \<noteq> [] \<and>
      net (requests b) (refresh_request b refresh) = Inr res \<and> ok res \<and>
      res_body res = Some (JObj kvs) \<and> truthy (map_of (rev kvs) ''access'')"
  let ?keep = "if truthy (map_of (rev kvs) ''refresh'') then map_of (rev kvs) ''refresh''
               else Some (JStr refresh)"
  have r: "refreshAccessToken net b
      = (map_of (rev kvs) ''access'',
         saveTokens (map_of (rev kvs) ''access'') ?keep None
           (b\<lparr>requests := requests b @ [refresh_request b refresh]\<rparr>))"
    using a refreshAccessToken_renewed [of b refresh net res kvs] by blast
  have k: "truthy ?keep" using a by simp
  have acc: "truthy (map_of (rev kvs) ''access'')" using a by simp
  show "fst (refreshAccessToken net b) = map_of (rev kvs) ''access''"
    by (simp add: r)
  show "getAccessToken (snd (refreshAccessToken net b))
          = Some (String (map_of (rev kvs) ''access''))"
    by (simp only: r snd_conv stored_after_save(1) [OF acc k])
  show "getRefreshToken (snd (refreshAccessToken net b))
          = Some (if truthy (map_of (rev kvs) ''refresh'')
                  then String (map_of (rev kvs) ''refresh'') else refresh)"
    by (simp only: r snd_conv stored_after_save(2) [OF acc k]) (simp add: String_def)
  show "getItem AUTH_USER_KEY (snd (refreshAccessToken net b)) = getItem AUTH_USER_KEY b"
    by (simp only: r snd_conv stored_after_save(3) [OF acc k]) (simp add: getItem_def)
  show "requests (snd (refreshAccessToken net b)) = requests b @ [refresh_request b refresh]"
    by (simp add: r saveTokens_fields)
next
  assume "getRefreshToken b = None \<or> getRefreshToken b = Some []"
  then show "refreshAccessToken net b = (None, b)"
    by (rule refreshAccessToken_absent)
qed

theorem refreshAccessToken_contract_witness:
  "fst (refreshAccessToken expired_backend signed_in) = Some (JStr ''A2'')
   \<and> getAccessToken (snd (refreshAccessToken expired_backend signed_in)) = Some ''A2''
   \<and> getRefreshToken (snd (refreshAccessToken expired_backend signed_in)) = Some ''R1''
   \<and> fst (refreshAccessToken offline signed_in) = None
   \<and> getAccessToken (snd (refreshAccessToken offline signed_in)) = None
   \<and> getRefreshToken (snd (refreshAccessToken offline signed_in)) = None
   \<and> refreshAccessToken offline (clearTokens signed_in) = (None, clearTokens signed_in)"
proof -
  have rt: "getRefreshToken signed_in = Some ''R1''" "''R1'' \<noteq> []"
    by (simp_all add: getRefreshToken_def getItem_def signed_in_def REFRESH_TOKEN_KEY_def)
  have none: "getRefreshToken (clearTokens signed_in) = None"
    by (simp add: stored_after_clear)
  have off: "offline (requests signed_in) (refresh_request signed_in ''R1'') = Inl TypeError"
    by (simp add: offline_def)
  have up: "expired_backend (requests signed_in) (refresh_request signed_in ''R1'')
              = Inr \<lparr>status = 200, statusText = ''OK'',
                     res_body = Some (JObj [(''access'', JStr ''A2'')])\<rparr>"
    by (simp add: expired_backend_def refresh_request_def API_BASE_def signed_in_def)
  have okr: "ok \<lparr>status = 200, statusText = ''OK'',
                 res_body = Some (JObj [(''access'', JStr ''A2'')])\<rparr>"
    by (simp add: ok_def)
  show ?thesis
    using refreshAccessToken_contract
      [of signed_in "''R1''" expired_backend TypeError
          "\<lparr>status = 200, statusText = ''OK'', res_body = Some (JObj [(''access'', JStr ''A2'')])\<rparr>"
          "[(''access'', JStr ''A2'')]"]
      refreshAccessToken_contract [of signed_in "''R1''" offline TypeError unauthorized "[]"]
      refreshAccessToken_contract [of "clearTokens signed_in" "''R1''" offline TypeError unauthorized "[]"]
      rt none off up okr
    by (simp add: String_def)
qed

subsection \<open>The authenticated request\<close>

lemma fetchWithAuth_first_final:
  assumes "getAccessToken b = Some access" and "access \<noteq> []"
    and "net (requests b) (auth_request u opts access) = Inl e
         \<or> net (requests b) (auth_request u opts access) = Inr res \<and> status res \<noteq> 401"
  shows "fetchWithAuth net u opts b
           = (net (requests b) (auth_request u opts access),
              b\<lparr>requests := requests b @ [auth_request u opts access]\<rparr>)"
  using assms by (auto simp add: fetchWithAuth_def fetch_with_bearer Let_def)

lemma fetchWithAuth_401:
  assumes "getAccessToken b = Some access" and "access \<noteq> []"
    and "net (requests b) (auth_request u opts access) = Inr res" and "status res = 401"
    and "refreshAccessToken net (b\<lparr>requests := requests b @ [auth_request u opts access]\<rparr>) = (a, b2)"
  shows "fetchWithAuth net u opts b
           = (if truthy a
              then (net (requests b2) (auth_request u (with_bearer opts access) (String a)),
                    b2\<lparr>requests := requests b2 @ [auth_request u (with_bearer opts access) (String a)]\<rparr>)
              else (Inl (Error ''Authentication failed''), b2\<lparr>location_href := Some ''/login''\<rparr>))"
  using assms by (auto simp add: fetchWithAuth_def fetch_with_bearer Let_def)

text \<open>
  C1 (as amended). For a request made through \<open>fetchWithAuth\<close> with a stored access
  token, to an address other than the refresh endpoint: at most two calls go to that address
  and at most one to the refresh endpoint. A first answer other than 401 (or a transport
  failure) is handed to the caller after that single call. On a first 401 one refresh is
  attempted; when it yields a token, the request is sent exactly once more with the new
  token and that second answer is returned whatever its status, a second 401 included,
  without clearing the session, navigating or throwing; when it yields no token the
  request is not sent again, the browser is routed to \<open>/login\<close> and the call fails with
  "Authentication failed". When the refresh POST itself failed (in transport or with a
  non-success status) the three stored values are absent afterwards.
\<close>

theorem fetchWithAuth_retry_once:
  assumes tok: "getAccessToken b = Some access" "access \<noteq> []"
    and ne: "u \<noteq> API_BASE b @ ''/api/token/refresh/''"
  shows "(\<exists>new. requests (snd (fetchWithAuth net u opts b)) = requests b @ new
            \<and> length (calls_to u new) \<le> 2
            \<and> length (calls_to (API_BASE b @ ''/api/token/refresh/'') new) \<le> 1)
      \<and> (\<forall>e res. net (requests b) (auth_request u opts access) = Inl e
             \<or> net (requests b) (auth_request u opts access) = Inr res \<and> status res \<noteq> 401 \<longrightarrow>
           fetchWithAuth net u opts b
             = (net (requests b) (auth_request u opts access),
                b\<lparr>requests := requests b @ [auth_request u opts access]\<rparr>))
      \<and> (\<forall>res a b2.
           net (requests b) (auth_request u opts access) = Inr res \<and> status res = 401 \<and>
           refreshAccessToken net (b\<lparr>requests := requests b @ [auth_request u opts access]\<rparr>)
             = (a, b2) \<longrightarrow>
           (if truthy a
            then fetchWithAuth net u opts b
                   = (net (requests b2) (auth_request u (with_bearer opts access) (String a)),
                      b2\<lparr>requests :=
                           requests b2 @ [auth_request u (with_bearer opts access) (String a)]\<rparr>)
               \<and> calls_to u (drop (length (requests b)) (requests (snd (fetchWithAuth net u opts b))))
                   = [auth_request u opts access,
                      auth_request u (with_bearer opts access) (String a)]
            else fetchWithAuth net u opts b
                   = (Inl (Error ''Authentication failed''), b2\<lparr>location_href := Some ''/login''\<rparr>)
               \<and> calls_to u (drop (length (requests b)) (requests (snd (fetchWithAuth net u opts b))))
                   = [auth_request u opts access]))
      \<and> (\<forall>res rt e rres.
           net (requests b) (auth_request u opts access) = Inr res \<and> status res = 401 \<and>
           getRefreshToken b = Some rt \<and> rt \<noteq> [] \<and>
           (net (requests b @ [auth_request u opts access]) (refresh_request b rt) = Inl e
            \<or> net (requests b @ [auth_request u opts access]) (refresh_request b rt) = Inr rres
              \<and> \<not> ok rres) \<longrightarrow>
           fst (fetchWithAuth net u opts b) = Inl (Error ''Authentication failed'')
           \<and> location_href (snd (fetchWithAuth net u opts b)) = Some ''/login''
           \<and> getAccessToken (snd (fetchWithAuth net u opts b)) = None
           \<and> getRefreshToken (snd (fetchWithAuth net u opts b)) = None
           \<and> getItem AUTH_USER_KEY (snd (fetchWithAuth net u opts b)) = None
           \<and> requests (snd (fetchWithAuth net u opts b))
               = requests b @ [auth_request u opts access, refresh_request b rt])"
    (is "?bound \<and> ?final \<and> ?retry \<and> ?fail")
proof -
  let ?rq1 = "auth_request u opts access"
  let ?b1 = "b\<lparr>requests := requests b @ [?rq1]\<rparr>"
  have final: ?final
    using fetchWithAuth_first_final [OF tok] by blast
  have retry: ?retry
  proof (intro allI impI)
    fix res a b2
    assume h: "net (requests b) ?rq1 = Inr res \<and> status res = 401 \<and>
               refreshAccessToken net ?b1 = (a, b2)"
    then have unf: "fetchWithAuth net u opts b
           = (if truthy a
              then (net (requests b2) (auth_request u (with_bearer opts access) (String a)),
                    b2\<lparr>requests := requests b2 @ [auth_request u (with_bearer opts access) (String a)]\<rparr>)
              else (Inl (Error ''Authentication failed''), b2\<lparr>location_href := Some ''/login''\<rparr>))"
      using fetchWithAuth_401 [OF tok, of net u opts res a b2] by blast
    have lg: "requests b2 = requests ?b1
              \<or> (\<exists>rt. requests b2 = requests ?b1 @ [refresh_request ?b1 rt])"
      using refreshAccessToken_requests [of net ?b1] h by simp
    have lgt: "truthy a \<Longrightarrow> \<exists>rt. requests b2 = requests ?b1 @ [refresh_request ?b1 rt]"
      using refreshAccessToken_truthy_requests [of net ?b1] h by simp
    show "if truthy a
            then fetchWithAuth net u opts b
                   = (net (requests b2) (auth_request u (with_bearer opts access) (String a)),
                      b2\<lparr>requests :=
                           requests b2 @ [auth_request u (with_bearer opts access) (String a)]\<rparr>)
               \<and> calls_to u (drop (length (requests b)) (requests (snd (fetchWithAuth net u opts b))))
                   = [auth_request u opts access,
                      auth_request u (with_bearer opts access) (String a)]
            else fetchWithAuth net u opts b
                   = (Inl (Error ''Authentication failed''), b2\<lparr>location_href := Some ''/login''\<rparr>)
               \<and> calls_to u (drop (length (requests b)) (requests (snd (fetchWithAuth net u opts b))))
                   = [auth_request u opts access]"
    proof (cases "truthy a")
      case True
      then show ?thesis using unf lgt ne
        by (auto simp add: calls_to_def request_urls API_BASE_requests)
    next
      case False
      then show ?thesis using unf lg ne
        by (auto simp add: calls_to_def request_urls API_BASE_requests)
    qed
  qed
  have fail: ?fail
  proof (intro allI impI)
    fix res rt e rres
    assume h: "net (requests b) ?rq1 = Inr res \<and> status res = 401 \<and>
           getRefreshToken b = Some rt \<and> rt \<noteq> [] \<and>
           (net (requests b @ [?rq1]) (refresh_request b rt) = Inl e
            \<or> net (requests b @ [?rq1]) (refresh_request b rt) = Inr rres \<and> \<not> ok rres)"
    have g: "getRefreshToken ?b1 = Some rt" using h by (simp add: getRefreshToken_def getItem_def)
    have rf: "refreshAccessToken net ?b1
                = (None, clearTokens (?b1\<lparr>requests := requests ?b1 @ [refresh_request ?b1 rt]\<rparr>))"
      using refreshAccessToken_failed [of ?b1 rt net e rres] g h
      by (simp add: refresh_request_requests)
    have unf: "fetchWithAuth net u opts b
           = (Inl (Error ''Authentication failed''),
              (clearTokens (?b1\<lparr>requests := requests ?b1 @ [refresh_request ?b1 rt]\<rparr>))
                \<lparr>location_href := Some ''/login''\<rparr>)"
      using fetchWithAuth_401 [OF tok, of net u opts res None] h rf by simp
    show "fst (fetchWithAuth net u opts b) = Inl (Error ''Authentication failed'')
           \<and> location_href (snd (fetchWithAuth net u opts b)) = Some ''/login''
           \<and> getAccessToken (snd (fetchWithAuth net u opts b)) = None
           \<and> getRefreshToken (snd (fetchWithAuth net u opts b)) = None
           \<and> getItem AUTH_USER_KEY (snd (fetchWithAuth net u opts b)) = None
           \<and> requests (snd (fetchWithAuth net u opts b))
               = requests b @ [?rq1, refresh_request b rt]"
      by (simp add: unf getAccessToken_def getRefreshToken_def getItem_def clearTokens_fields
          ACCESS_TOKEN_KEY_def REFRESH_TOKEN_KEY_def AUTH_USER_KEY_def refresh_request_requests)
  qed
  have bound: ?bound
  proof (cases "net (requests b) ?rq1")
    case (Inl e)
    then show ?thesis using tok ne
      by (simp add: fetchWithAuth_def fetch_with_bearer calls_to_def request_urls)
  next
    case (Inr res)
    show ?thesis
    proof (cases "status res = 401")
      case False
      then show ?thesis using tok ne Inr
        by (simp add: fetchWithAuth_def fetch_with_bearer calls_to_def request_urls)
    next
      case True
      obtain a b2 where rf: "refreshAccessToken net ?b1 = (a, b2)" by force
      show ?thesis
      proof (cases "truthy a")
        case False
        have "requests b2 = requests ?b1
              \<or> (\<exists>rt. requests b2 = requests ?b1 @ [refresh_request ?b1 rt])"
          using refreshAccessToken_requests [of net ?b1] rf by simp
        then show ?thesis using tok ne Inr True rf False
          by (auto simp add: fetchWithAuth_def fetch_with_bearer calls_to_def request_urls
              Let_def API_BASE_requests)
      next
        case t: True
        have "\<exists>rt. requests b2 = requests ?b1 @ [refresh_request ?b1 rt]"
          using refreshAccessToken_truthy_requests [of net ?b1] rf t by simp
        then show ?thesis using tok ne Inr True rf t
          by (auto simp add: fetchWithAuth_def fetch_with_bearer calls_to_def request_urls
              Let_def API_BASE_requests)
      qed
    qed
  qed
  show ?thesis using bound final retry fail by blast
qed

theorem fetchWithAuth_retry_once_witness:
  "fst (fetchWithAuth expired_backend ''http://localhost:8000/api/documents/'' no_options
          signed_in)
     = Inr \<lparr>status = 200, statusText = ''OK'', res_body = Some (JObj [])\<rparr>
   \<and> map url (requests (snd (fetchWithAuth expired_backend
                                  ''http://localhost:8000/api/documents/'' no_options signed_in)))
     = [''http://localhost:8000/api/documents/'', ''http://localhost:8000/api/token/refresh/'',
        ''http://localhost:8000/api/documents/'']"
proof -
  have tok: "getAccessToken signed_in = Some ''A1''" "''A1'' \<noteq> []"
    by (simp_all add: getAccessToken_def getItem_def signed_in_def ACCESS_TOKEN_KEY_def)
  have ne: "''http://localhost:8000/api/documents/''
              \<noteq> API_BASE signed_in @ ''/api/token/refresh/''"
    by (simp add: API_BASE_def signed_in_def)
  have first: "expired_backend (requests signed_in)
                 (auth_request ''http://localhost:8000/api/documents/'' no_options ''A1'')
               = Inr unauthorized"
    by (simp add: expired_backend_def auth_request_def no_options_def)
  have st: "status unauthorized = 401"
    by (simp add: unauthorized_def)
  have rf: "refreshAccessToken expired_backend
              (signed_in\<lparr>requests := requests signed_in
                 @ [auth_request ''http://localhost:8000/api/documents/'' no_options ''A1'']\<rparr>)
            = (Some (JStr ''A2''),
               \<lparr>localStorage = [''access'' \<mapsto> ''A2'', ''refresh'' \<mapsto> ''R1''],
                location_href = None,
                requests = [auth_request ''http://localhost:8000/api/documents/'' no_options ''A1'',
                            refresh_request signed_in ''R1''],
                VITE_API_BASE = None\<rparr>)"
    by (simp add: refreshAccessToken_def fetch_def refresh_options_def refresh_request_def
        expired_backend_def signed_in_def getRefreshToken_def getItem_def REFRESH_TOKEN_KEY_def
        ACCESS_TOKEN_KEY_def API_BASE_def ok_def res_json_def saveTokens_def setItem_def
        String_def Let_def)
  have second: "expired_backend
                  [auth_request ''http://localhost:8000/api/documents/'' no_options ''A1'',
                   refresh_request signed_in ''R1'']
                  (auth_request ''http://localhost:8000/api/documents/''
                     (with_bearer no_options ''A1'') ''A2'')
                = Inr \<lparr>status = 200, statusText = ''OK'', res_body = Some (JObj [])\<rparr>"
    by (simp add: expired_backend_def auth_request_def with_bearer_def no_options_def)
  have "fetchWithAuth expired_backend ''http://localhost:8000/api/documents/'' no_options
          signed_in
        = (Inr \<lparr>status = 200, statusText = ''OK'', res_body = Some (JObj [])\<rparr>,
           \<lparr>localStorage = [''access'' \<mapsto> ''A2'', ''refresh'' \<mapsto> ''R1''],
            location_href = None,
            requests = [auth_request ''http://localhost:8000/api/documents/'' no_options ''A1'',
                        refresh_request signed_in ''R1'',
                        auth_request ''http://localhost:8000/api/documents/''
                          (with_bearer no_options ''A1'') ''A2''],
            VITE_API_BASE = None\<rparr>)"
    using fetchWithAuth_retry_once
      [OF tok ne, of expired_backend no_options, THEN conjunct2, THEN conjunct2,
       THEN conjunct1, rule_format, OF conjI [OF first conjI [OF st rf]]] second
    by (simp add: String_def)
  then show ?thesis
    by (simp add: request_urls API_BASE_def signed_in_def)
qed

text \<open>
  The claim as written fails where the backend answers 401 to both calls and renews the
  token in between: the two calls are made, but the second 401 is returned as a response
  (nothing is thrown), the renewed token \<open>A2\<close> is stored (the session is not cleared) and
  \<^verbatim>\<open>window.location.href\<close> is never assigned.
\<close>

theorem fetchWithAuth_second_401_counterexample:
  "fst (fetchWithAuth rejecting_backend ''http://localhost:8000/api/documents/'' no_options
          signed_in)
     = Inr unauthorized
   \<and> location_href (snd (fetchWithAuth rejecting_backend
                              ''http://localhost:8000/api/documents/'' no_options signed_in))
     = None
   \<and> getAccessToken (snd (fetchWithAuth rejecting_backend
                               ''http://localhost:8000/api/documents/'' no_options signed_in))
     = Some ''A2''
   \<and> getRefreshToken (snd (fetchWithAuth rejecting_backend
                                ''http://localhost:8000/api/documents/'' no_options signed_in))
     = Some ''R1''
   \<and> map url (requests (snd (fetchWithAuth rejecting_backend
                                  ''http://localhost:8000/api/documents/'' no_options signed_in)))
     = [''http://localhost:8000/api/documents/'', ''http://localhost:8000/api/token/refresh/'',
        ''http://localhost:8000/api/documents/'']"
  by (simp add: fetchWithAuth_def fetch_def with_bearer_def no_options_def signed_in_def
      rejecting_backend_def unauthorized_def refreshAccessToken_def getAccessToken_def
      getRefreshToken_def getItem_def ACCESS_TOKEN_KEY_def REFRESH_TOKEN_KEY_def
      AUTH_USER_KEY_def API_BASE_def refresh_options_def ok_def res_json_def saveTokens_def
      setItem_def String_def Let_def)

subsection \<open>The cached user\<close>

lemma json_reader_examples:
  "json_reader ''{\"username\": \"asha\", \"is_staff\": true}''
     = Some (JObj [(''username'', JStr ''asha''), (''is_staff'', JBool True)])"
  "json_reader ''{\"username\": '' = None"
  by code_simp+

text \<open>
  C7 (as amended). \<open>getAuthUser\<close> returns no value when nothing or the empty text is
  stored under the cached-user key, and returns the parsed value when the stored text is
  JSON. When the stored text is not empty and not JSON the operation does not return: the
  SyntaxError of \<^verbatim>\<open>JSON.parse\<close> reaches the caller. This holds for every parser.
\<close>

theorem getAuthUser_outcomes:
  "(getItem AUTH_USER_KEY b = None \<or> getItem AUTH_USER_KEY b = Some [] \<longrightarrow>
      getAuthUser parse b = Inr None)
   \<and> (\<forall>text v. getItem AUTH_USER_KEY b = Some text \<and> text \<noteq> [] \<and> parse text = Some v \<longrightarrow>
        getAuthUser parse b = Inr (Some v))
   \<and> (\<forall>text. getItem AUTH_USER_KEY b = Some text \<and> text \<noteq> [] \<and> parse text = None \<longrightarrow>
        getAuthUser parse b = Inl SyntaxError)"
  by (auto simp add: getAuthUser_def)

theorem getAuthUser_outcomes_witness:
  "getAuthUser json_reader signed_in = Inr None
   \<and> getAuthUser json_reader blank_session = Inr None
   \<and> getAuthUser json_reader cached_session
       = Inr (Some (JObj [(''username'', JStr ''asha''), (''is_staff'', JBool True)]))"
proof -
  have s: "getItem AUTH_USER_KEY signed_in = None"
    "getItem AUTH_USER_KEY blank_session = Some []"
    "getItem AUTH_USER_KEY cached_session = Some ''{\"username\": \"asha\", \"is_staff\": true}''"
    by (simp_all add: getItem_def AUTH_USER_KEY_def signed_in_def blank_session_def
        cached_session_def)
  show ?thesis
    using getAuthUser_outcomes [of signed_in json_reader]
      getAuthUser_outcomes [of blank_session json_reader]
      getAuthUser_outcomes [of cached_session json_reader]
      s json_reader_examples(1)
    by simp
qed

text \<open>
  The claim as written fails on a stored text that is not JSON, here a cut-off object: the
  operation throws instead of returning no value.
\<close>

theorem getAuthUser_unparsable_counterexample:
  "getItem AUTH_USER_KEY corrupt_session = Some ''{\"username\": ''
   \<and> json_reader ''{\"username\": '' = None
   \<and> getAuthUser json_reader corrupt_session = Inl SyntaxError"
  by (simp add: json_reader_examples(2) getAuthUser_def getItem_def AUTH_USER_KEY_def
      corrupt_session_def signed_in_def)

section \<open>The Review View\<close>

subsection \<open>Field states and counters\<close>

lemma trim_empty_iff: "trim s = [] \<longleftrightarrow> (\<forall>c \<in> set s. is_space c)"
proof -
  have "trim s = [] \<longleftrightarrow> (\<forall>c \<in> set (dropWhile is_space s). is_space c)"
    by (simp add: trim_def dropWhile_eq_Nil_conv)
  also have "\<dots> \<longleftrightarrow> dropWhile is_space s = []"
    by (metis dropWhile_eq_Nil_conv hd_dropWhile list.set_sel(1) empty_iff list.set(1))
  also have "\<dots> \<longleftrightarrow> (\<forall>c \<in> set s. is_space c)"
    by (simp add: dropWhile_eq_Nil_conv)
  finally show ?thesis .
qed

lemma missingFields_blank:
  "missingFields fs = length (filter (\<lambda>f. \<forall>c \<in> set (field_value f). is_space c) fs)"
proof -
  have "(\<lambda>f::field. field_value f = [] \<or> trim (field_value f) = [])
          = (\<lambda>f. \<forall>c \<in> set (field_value f). is_space c)"
    by (auto simp add: trim_empty_iff)
  then show ?thesis by (simp only: missingFields_def)
qed

lemma row_class_red:
  "row_class f = ''bg-red-50 ring-1 ring-red-200'' \<longleftrightarrow> validation_status f \<noteq> ''passed''"
  by (simp add: row_class_def)

lemma row_class_yellow:
  "row_class f = ''bg-yellow-50 ring-1 ring-yellow-200''
     \<longleftrightarrow> validation_status f = ''passed'' \<and> field_value f = []"
  by (simp add: row_class_def)

text \<open>
  C8. The claim does not hold of the code: a field whose validation status is \<open>passed\<close>
  and whose value is one space gets the neutral classes on its row, label and input (the
  rendering tests \<^verbatim>\<open>!f.field_value\<close>, true of the empty text only), while the counter
  above the list, which also trims the value, counts it as a missing field.
\<close>

theorem whitespace_value_not_highlighted:
  "row_class \<lparr>field_id = 0, field_name = ''student_name'', field_value = '' '',
              confidence_score = None, validation_status = ''passed''\<rparr> = []
   \<and> label_class \<lparr>field_id = 0, field_name = ''student_name'', field_value = '' '',
              confidence_score = None, validation_status = ''passed''\<rparr> = ''text-gray-700''
   \<and> input_class \<lparr>field_id = 0, field_name = ''student_name'', field_value = '' '',
              confidence_score = None, validation_status = ''passed''\<rparr>
       = ''border-gray-300 focus:ring-indigo-500 focus:border-indigo-500''
   \<and> missingFields [\<lparr>field_id = 0, field_name = ''student_name'', field_value = '' '',
              confidence_score = None, validation_status = ''passed''\<rparr>] = 1
   \<and> failedFields [\<lparr>field_id = 0, field_name = ''student_name'', field_value = '' '',
              confidence_score = None, validation_status = ''passed''\<rparr>] = 0"
  by (simp add: row_class_def label_class_def input_class_def missingFields_def failedFields_def
      trim_def is_space_def)


subsection \<open>Accept and finalize\<close>

lemma acceptAndFinalize_response_is_final:
  assumes "doc st = Some d" and "truthy (Some d)" and "get_prop d ''id'' = Inr i"
    and "fetchWithAuth net (API_BASE b @ ''/api/documents/'' @ String i @ ''/finalize/'')
           finalize_options b = (Inr res, b1)"
    and "handleApiResponse res = Inl err"
  shows "acceptAndFinalize net st b
           = (finalize_failed err
                (st\<lparr>message := Some (''info'', ''Finalizing...''), review_error := None\<rparr>),
              b1)"
  using assms by (simp add: acceptAndFinalize_def Let_def)

lemma acceptAndFinalize_falls_back_on_throw:
  assumes "doc st = Some d" and "truthy (Some d)" and "get_prop d ''id'' = Inr i"
    and "fetchWithAuth net (API_BASE b @ ''/api/documents/'' @ String i @ ''/finalize/'')
           finalize_options b = (Inl e, b1)"
    and "fetchWithAuth net (API_BASE b @ ''/api/documents/'' @ String i @ ''/'')
           approve_options b1 = (Inr res, b2)"
    and "handleApiResponse res = Inr result"
  shows "acceptAndFinalize net st b
           = (st\<lparr>message :=
                    Some (''success'',
                          ''Document finalized successfully! Redirecting to document list...''),
                  review_error := None,
                  timers := timers st @ [(2000, ''/bulk-review'')]\<rparr>,
              b2)"
  using assms by (simp add: acceptAndFinalize_def Let_def)

text \<open>
  C3. The claim does not hold of the code where the finalize endpoint fails with an HTTP
  status: against a backend that answers the finalize POST with 404 and would accept the
  PATCH, the action ends with the error "HTTP 404: Not Found", no success message, no
  timer for the navigation, and the POST as its only request. The PATCH is sent only when
  the call itself throws, as against a backend whose finalize address cannot be reached:
  there the action succeeds and starts the 2000 ms timer for \<open>/bulk-review\<close>.
\<close>

theorem acceptAndFinalize_no_fallback_on_status:
  "fst (acceptAndFinalize no_finalize_backend reviewing signed_in)
     = reviewing\<lparr>review_error := Some ''HTTP 404: Not Found''\<rparr>
   \<and> map http_method (requests (snd (acceptAndFinalize no_finalize_backend reviewing signed_in)))
     = [''POST'']
   \<and> map url (requests (snd (acceptAndFinalize no_finalize_backend reviewing signed_in)))
     = [''http://localhost:8000/api/documents/7/finalize/'']
   \<and> fst (acceptAndFinalize unreachable_finalize_backend reviewing signed_in)
     = reviewing\<lparr>message := Some (''success'',
                      ''Document finalized successfully! Redirecting to document list...''),
                  timers := [(2000, ''/bulk-review'')]\<rparr>
   \<and> map http_method (requests (snd (acceptAndFinalize unreachable_finalize_backend reviewing signed_in)))
     = [''POST'', ''PATCH'']"
  by (simp add: acceptAndFinalize_def reviewing_def signed_in_def no_finalize_backend_def
      unreachable_finalize_backend_def fetchWithAuth_def fetch_def with_bearer_def
      finalize_options_def approve_options_def getAccessToken_def getItem_def
      ACCESS_TOKEN_KEY_def API_BASE_def String_def int_digits_def nat_digits.simps
      handleApiResponse_def ok_def res_json_def finalize_failed_def Let_def)

section \<open>The Login View\<close>

lemma fetch_token:
  "fetch net (API_BASE b @ ''/api/token/'') (token_options st) b
     = (net (requests b) (token_request b st),
        b\<lparr>requests := requests b @ [token_request b st]\<rparr>)"
  by (simp add: fetch_def token_options_def token_request_def Let_def)

lemma saveTokens_tokens:
  assumes "truthy a" and "truthy r"
  shows "getAccessToken (saveTokens a r u b) = Some (String a)"
    and "getRefreshToken (saveTokens a r u b) = Some (String r)"
  using assms
  by (simp_all add: getAccessToken_def getRefreshToken_def getItem_def saveTokens_def
      setItem_def ACCESS_TOKEN_KEY_def REFRESH_TOKEN_KEY_def AUTH_USER_KEY_def Let_def
      split: option.splits)

lemma onSubmit_profile_fetched:
  assumes "isFormValid st"
    and "net (requests b) (token_request b st) = Inr tres" and "ok tres"
    and "res_body tres = Some data"
    and "get_prop data ''access'' = Inr a" and "truthy a"
    and "get_prop data ''refresh'' = Inr r" and "truthy r"
    and "fst (fetchWithAuth net (API_BASE b @ ''/api/profile/'') no_options
           (saveTokens a r None (b\<lparr>requests := requests b @ [token_request b st]\<rparr>)))
         = Inr pres"
    and "handleApiResponse pres = Inr profile"
  shows "onSubmit stringify net st b
           = (portal_gate (isAdminAccount profile) (st\<lparr>loading := True, login_error := None\<rparr>),
              saveTokens a r (if truthy (Some profile) then Some (stringify profile) else None)
                (snd (fetchWithAuth net (API_BASE b @ ''/api/profile/'') no_options
                   (saveTokens a r None (b\<lparr>requests := requests b @ [token_request b st]\<rparr>)))))"
proof -
  have ti: "tokens_issued tres data = Inr True"
    using assms by (simp add: tokens_issued_def)
  have oc: "opt_chain data ''access'' = a" "opt_chain data ''refresh'' = r"
    using assms by (simp_all add: opt_chain_def)
  obtain x y where xy: "fetchWithAuth net (API_BASE b @ ''/api/profile/'') no_options
           (saveTokens a r None (b\<lparr>requests := requests b @ [token_request b st]\<rparr>)) = (x, y)"
    by force
  then have x: "x = Inr pres" using assms(9) by simp
  show ?thesis
    using assms(1,2,4,10) ti oc xy x
    by (simp add: onSubmit_def fetch_token res_json_def Let_def)
qed

text \<open>
  C6. After the token endpoint has issued an access and a refresh token and the profile
  has been fetched: an administrative account (role \<open>admin\<close>, or the staff flag, or the
  superuser flag) that chose the User portal gets the admin-must-use-admin-portal message,
  no navigation happens and the issued tokens are stored; the same account on the Admin
  portal is taken to \<open>/admin/users\<close>; an account that is not administrative is refused
  on the Admin portal without navigation (tokens stored as well) and taken to \<open>/home\<close>
  on the User portal.
\<close>

theorem onSubmit_portal_gate:
  assumes "isFormValid st"
    and "net (requests b) (token_request b st) = Inr tres" and "ok tres"
    and "res_body tres = Some data"
    and "get_prop data ''access'' = Inr a" and "truthy a"
    and "get_prop data ''refresh'' = Inr r" and "truthy r"
    and "fst (fetchWithAuth net (API_BASE b @ ''/api/profile/'') no_options
           (saveTokens a r None (b\<lparr>requests := requests b @ [token_request b st]\<rparr>)))
         = Inr pres"
    and "handleApiResponse pres = Inr profile"
  shows "(isAdminAccount profile \<and> selectedPortal st = ''user'' \<longrightarrow>
            login_error (fst (onSubmit stringify net st b))
              = Some ''Admin accounts must sign in via the Admin portal. Please select \"Admin\" and sign in.''
          \<and> navigated (fst (onSubmit stringify net st b)) = navigated st
          \<and> getAccessToken (snd (onSubmit stringify net st b)) = Some (String a)
          \<and> getRefreshToken (snd (onSubmit stringify net st b)) = Some (String r))
       \<and> (isAdminAccount profile \<and> selectedPortal st = ''admin'' \<longrightarrow>
            navigated (fst (onSubmit stringify net st b)) = navigated st @ [''/admin/users'']
          \<and> login_error (fst (onSubmit stringify net st b)) = None)
       \<and> (\<not> isAdminAccount profile \<and> selectedPortal st = ''admin'' \<longrightarrow>
            login_error (fst (onSubmit stringify net st b))
              = Some ''Your account is not an admin. Please sign in to the user portal or use an admin account.''
          \<and> navigated (fst (onSubmit stringify net st b)) = navigated st
          \<and> getAccessToken (snd (onSubmit stringify net st b)) = Some (String a)
          \<and> getRefreshToken (snd (onSubmit stringify net st b)) = Some (String r))
       \<and> (\<not> isAdminAccount profile \<and> selectedPortal st = ''user'' \<longrightarrow>
            navigated (fst (onSubmit stringify net st b)) = navigated st @ [''/home'']
          \<and> login_error (fst (onSubmit stringify net st b)) = None)"
  by (simp add: onSubmit_profile_fetched [OF assms] portal_gate_def
      saveTokens_tokens [OF assms(6) assms(8)])

theorem onSubmit_portal_gate_witness:
  "login_error (fst (onSubmit json_writer (issuing_backend admin_profile) (login_form ''user'') signed_out))
     = Some ''Admin accounts must sign in via the Admin portal. Please select \"Admin\" and sign in.''
   \<and> navigated (fst (onSubmit json_writer (issuing_backend admin_profile) (login_form ''user'') signed_out)) = []
   \<and> getAccessToken (snd (onSubmit json_writer (issuing_backend admin_profile) (login_form ''user'') signed_out)) = Some ''A1''
   \<and> navigated (fst (onSubmit json_writer (issuing_backend admin_profile) (login_form ''admin'') signed_out)) = [''/admin/users'']
   \<and> navigated (fst (onSubmit json_writer (issuing_backend employee_profile) (login_form ''admin'') signed_out)) = []
   \<and> navigated (fst (onSubmit json_writer (issuing_backend employee_profile) (login_form ''user'') signed_out)) = [''/home'']"
proof -
  let ?tres = "\<lparr>status = 200, statusText = ''OK'',
                res_body = Some (JObj [(''access'', JStr ''A1''), (''refresh'', JStr ''R1'')])\<rparr>"
  let ?data = "JObj [(''access'', JStr ''A1''), (''refresh'', JStr ''R1'')]"
  have v: "isFormValid (login_form p)" for p
    by (simp add: isFormValid_def login_form_def trim_def is_space_def)
  have t: "issuing_backend pf (requests signed_out) (token_request signed_out (login_form p))
             = Inr ?tres" for pf p
    by (simp add: issuing_backend_def token_request_def API_BASE_def signed_out_def)
  have o: "ok ?tres" by (simp add: ok_def)
  have d: "res_body ?tres = Some ?data" by simp
  have a: "get_prop ?data ''access'' = Inr (Some (JStr ''A1''))" "truthy (Some (JStr ''A1''))"
    by simp_all
  have r: "get_prop ?data ''refresh'' = Inr (Some (JStr ''R1''))" "truthy (Some (JStr ''R1''))"
    by simp_all
  have p: "fst (fetchWithAuth (issuing_backend pf) (API_BASE signed_out @ ''/api/profile/'')
                  no_options
                  (saveTokens (Some (JStr ''A1'')) (Some (JStr ''R1'')) None
                     (signed_out\<lparr>requests := requests signed_out
                                     @ [token_request signed_out (login_form q)]\<rparr>)))
           = Inr \<lparr>status = 200, statusText = ''OK'', res_body = Some pf\<rparr>" for pf q
    by (simp add: fetchWithAuth_def fetch_def with_bearer_def no_options_def saveTokens_def
        setItem_def getAccessToken_def getItem_def ACCESS_TOKEN_KEY_def REFRESH_TOKEN_KEY_def
        String_def API_BASE_def signed_out_def issuing_backend_def Let_def)
  have h: "handleApiResponse \<lparr>status = 200, statusText = ''OK'', res_body = Some pf\<rparr> = Inr pf"
    for pf
    by (simp add: handleApiResponse_def ok_def res_json_def)
  have adm: "isAdminAccount admin_profile" "\<not> isAdminAccount employee_profile"
    by (simp_all add: isAdminAccount_def opt_chain_def admin_profile_def employee_profile_def)
  have sp: "selectedPortal (login_form q) = q" "navigated (login_form q) = []" for q
    by (simp_all add: login_form_def)
  note gate = onSubmit_portal_gate
    [where stringify = json_writer and b = signed_out,
     OF v t o d a(1) a(2) r(1) r(2) p h]
  show ?thesis
    using gate [of admin_profile "''user''"] gate [of admin_profile "''admin''"]
      gate [of employee_profile "''admin''"] gate [of employee_profile "''user''"] adm
    by (simp add: sp String_def)
qed


section \<open>The persisted data model\<close>

lemma unique_key_eq: "unique_key x = unique_key y \<longleftrightarrow> student x = student y \<and> date x = date y"
  by (auto simp add: unique_key_def unique_together_def column_def split: prod.splits)

lemma persist_ok:
  assumes "table_ok t" and "persist t r = Inr t'"
  shows "table_ok t'"
proof -
  have free: "\<forall>x \<in> set t. pk x \<noteq> pk r \<longrightarrow> unique_key x \<noteq> unique_key r"
    and t': "t' = r # filter (\<lambda>x. pk x \<noteq> pk r) t"
    using assms(2) by (auto simp add: persist_def split: if_splits)
  have d: "distinct (map pk t')"
    using assms(1) by (auto simp add: t' table_ok_def distinct_map_filter)
  have u: "pk x \<noteq> pk y \<Longrightarrow> unique_key x \<noteq> unique_key y"
    if xin: "x \<in> set t'" and yin: "y \<in> set t'" for x y
  proof -
    consider "x = r" "y = r" | "x = r" "y \<in> set t" "pk y \<noteq> pk r"
      | "y = r" "x \<in> set t" "pk x \<noteq> pk r" | "x \<in> set t" "y \<in> set t"
      using xin yin by (auto simp add: t')
    then show "pk x \<noteq> pk y \<Longrightarrow> unique_key x \<noteq> unique_key y"
    proof cases
      case 1 then show "pk x \<noteq> pk y \<Longrightarrow> unique_key x \<noteq> unique_key y" by simp
    next
      case 2 then show ?thesis using free by metis
    next
      case 3 then show ?thesis using free by metis
    next
      case 4 then show "pk x \<noteq> pk y \<Longrightarrow> unique_key x \<noteq> unique_key y"
        using assms(1) by (simp add: table_ok_def)
    qed
  qed
  show ?thesis using d u by (simp add: table_ok_def)
qed

lemma persist_all_ok: "table_ok t \<Longrightarrow> table_ok (persist_all t rs)"
  by (induction rs arbitrary: t) (auto split: sum.splits dest: persist_ok)

lemma table_ok_distinct_rows:
  assumes "table_ok t" "x \<in> set t" "y \<in> set t" "x \<noteq> y"
  shows "pk x \<noteq> pk y"
  using assms by (meson distinct_map inj_onD table_ok_def)

text \<open>
  C9. Attendance records are unique per (student, date): in every table reached from the
  empty one by attempts to persist records, two distinct records differ in student or in
  date; and once a record is persisted, the attempt to persist another record (another
  key) with the same student and the same date is refused as a violation of the
  schema's uniqueness constraint.
\<close>

theorem attendance_unique:
  "(\<forall>x \<in> set (persist_all [] rs). \<forall>y \<in> set (persist_all [] rs).
       x \<noteq> y \<longrightarrow> (student x, date x) \<noteq> (student y, date y))
   \<and> (\<forall>t1 r1 (r2 :: Attendance). persist (persist_all [] rs) r1 = Inr t1 \<and> pk r2 \<noteq> pk r1
         \<and> student r2 = student r1 \<and> date r2 = date r1 \<longrightarrow>
         persist t1 r2 = Inl IntegrityError)"
proof (intro conjI ballI allI impI)
  have ok: "table_ok (persist_all [] rs)"
    by (rule persist_all_ok) (simp add: table_ok_def)
  fix x y assume "x \<in> set (persist_all [] rs)" "y \<in> set (persist_all [] rs)" "x \<noteq> y"
  then have "pk x \<noteq> pk y" using ok table_ok_distinct_rows by blast
  then have "unique_key x \<noteq> unique_key y"
    using ok \<open>x \<in> _\<close> \<open>y \<in> _\<close> by (simp add: table_ok_def)
  then show "(student x, date x) \<noteq> (student y, date y)"
    by (simp add: unique_key_eq)
next
  fix t1 r1 and r2 :: Attendance
  assume h: "persist (persist_all [] rs) r1 = Inr t1 \<and> pk r2 \<noteq> pk r1
         \<and> student r2 = student r1 \<and> date r2 = date r1"
  then have "r1 \<in> set t1" by (auto simp add: persist_def split: if_splits)
  moreover have "unique_key r1 = unique_key r2" using h by (simp add: unique_key_eq)
  ultimately have "\<exists>x \<in> set t1. pk x \<noteq> pk r2 \<and> unique_key x = unique_key r2"
    using h by (intro bexI [of _ r1]) auto
  then show "persist t1 r2 = Inl IntegrityError"
    by (simp add: persist_def)
qed

theorem attendance_unique_witness:
  "persist_all [] [attendance 1 7 (2024, 12, 5) ''present'',
                   attendance 2 7 (2024, 12, 5) ''absent'']
     = [attendance 1 7 (2024, 12, 5) ''present'']
   \<and> persist [attendance 1 7 (2024, 12, 5) ''present'']
         (attendance 2 7 (2024, 12, 5) ''absent'')
     = Inl IntegrityError"
proof -
  have p: "persist (persist_all [] []) (attendance 1 7 (2024, 12, 5) ''present'')
             = Inr [attendance 1 7 (2024, 12, 5) ''present'']"
    by (simp add: persist_def)
  have k: "pk (attendance 2 7 (2024, 12, 5) ''absent'')
             \<noteq> pk (attendance 1 7 (2024, 12, 5) ''present'')"
    "student (attendance 2 7 (2024, 12, 5) ''absent'')
       = student (attendance 1 7 (2024, 12, 5) ''present'')"
    "date (attendance 2 7 (2024, 12, 5) ''absent'')
       = date (attendance 1 7 (2024, 12, 5) ''present'')"
    by (simp_all add: attendance_def)
  have refused: "persist [attendance 1 7 (2024, 12, 5) ''present'']
                   (attendance 2 7 (2024, 12, 5) ''absent'') = Inl IntegrityError"
    using attendance_unique [of "[]"] p k by blast
  then show ?thesis
    using p by simp
qed

end
